theory Spec2Isabelle
  imports Complex_Main
begin

section \<open>Values\<close>

text \<open>
  The arrays of \<^verbatim>\<open>analyses.py\<close> hold float64 and complex128 values. A value is modelled
  as a real or a complex number, or as NaN, the one value that is not a number:
  \<open>None\<close> is NaN. Rounding and overflow are left out, and so are the IEEE infinities:
  the only operation of the source that makes an infinity from finite operands is a
  division \<open>x / 0\<close> with \<open>x \<noteq> 0\<close>, which can only happen in
  \<^verbatim>\<open>_proj_power_corr\<close> (a zero standard deviation) and returns NaN here.
  In \<^verbatim>\<open>_plv\<close>, \<^verbatim>\<open>_coh\<close> and \<^verbatim>\<open>_icoh\<close> every division by zero is \<open>0 / 0\<close> or has a NaN
  operand, and NaN is what numpy returns.
\<close>

type_synonym float64 = "real option"
type_synonym complex128 = "complex option"

abbreviation NaN :: "'a option" where
  "NaN \<equiv> None"

definition np_add :: "('a::field) option \<Rightarrow> 'a option \<Rightarrow> 'a option" where
  "np_add a b = (case (a, b) of (Some x, Some y) \<Rightarrow> Some (x + y) | _ \<Rightarrow> NaN)"

definition np_sub :: "('a::field) option \<Rightarrow> 'a option \<Rightarrow> 'a option" where
  "np_sub a b = (case (a, b) of (Some x, Some y) \<Rightarrow> Some (x - y) | _ \<Rightarrow> NaN)"

definition np_mul :: "('a::field) option \<Rightarrow> 'a option \<Rightarrow> 'a option" where
  "np_mul a b = (case (a, b) of (Some x, Some y) \<Rightarrow> Some (x * y) | _ \<Rightarrow> NaN)"

definition np_div :: "('a::field) option \<Rightarrow> 'a option \<Rightarrow> 'a option" where
  "np_div a b =
     (case (a, b) of
        (Some x, Some y) \<Rightarrow> if y = 0 then NaN else Some (x / y)
      | _ \<Rightarrow> NaN)"

definition np_abs :: "complex128 \<Rightarrow> float64" where
  "np_abs z = map_option cmod z"

definition np_angle :: "complex128 \<Rightarrow> float64" where
  "np_angle z = map_option Arg z"

definition np_square :: "float64 \<Rightarrow> float64" where
  "np_square x = map_option (\<lambda>v. v\<^sup>2) x"

definition np_sqrt :: "float64 \<Rightarrow> float64" where
  "np_sqrt x = (case x of Some v \<Rightarrow> if v < 0 then NaN else Some (sqrt v) | None \<Rightarrow> NaN)"

definition np_exp :: "complex128 \<Rightarrow> complex128" where
  "np_exp z = map_option exp z"

definition np_sin :: "complex128 \<Rightarrow> complex128" where
  "np_sin z = map_option sin z"

definition np_imag :: "complex128 \<Rightarrow> float64" where
  "np_imag z = map_option Im z"

definition np_conjugate :: "complex128 \<Rightarrow> complex128" where
  "np_conjugate z = map_option cnj z"

text \<open>A float64 operand of a complex operation is promoted to complex128.\<close>

definition as_complex :: "float64 \<Rightarrow> complex128" where
  "as_complex x = map_option complex_of_real x"

text \<open>\<^verbatim>\<open>1j\<close>, the imaginary unit.\<close>

definition j1 :: complex128 where
  "j1 = Some \<i>"

text \<open>\<^verbatim>\<open>np.sum\<close>: a NaN anywhere makes the sum NaN; the empty sum is 0.\<close>

definition np_sum :: "('a::field) option list \<Rightarrow> 'a option" where
  "np_sum xs = foldl np_add (Some 0) xs"

text \<open>
  \<^verbatim>\<open>np.nanmean\<close> of a one-dimensional sequence: the mean of the values that are not NaN;
  NaN when there is none (an empty or an all-NaN sequence).
\<close>

definition not_nan :: "'a option list \<Rightarrow> 'a list" where
  "not_nan xs = List.map_filter (\<lambda>x. x) xs"

definition np_nanmean :: "float64 list \<Rightarrow> float64" where
  "np_nanmean xs =
     (let ys = not_nan xs
      in if ys = [] then NaN else Some (sum_list ys / real (length ys)))"

text \<open>
  \<^verbatim>\<open>np.nanstd\<close> (population standard deviation, \<^verbatim>\<open>ddof=0\<close>) of a one-dimensional sequence:
  the square root of the NaN-skipping mean of the squared deviations from the NaN-skipping
  mean.
\<close>

definition np_nanstd :: "float64 list \<Rightarrow> float64" where
  "np_nanstd xs =
     np_sqrt (np_nanmean (map (\<lambda>x. np_square (np_sub x (np_nanmean xs))) xs))"

section \<open>The synchrony metrics\<close>

text \<open>
  Each metric takes two one-dimensional sequences of the same length. The engine
  only ever passes two slices of one array along its last axis, so numpy's broadcasting
  of unequal lengths never applies; \<open>map2\<close> pairs the samples.
\<close>

text \<open>
  \<^verbatim>\<open>def _plv(X, Y): return np.abs(np.sum(np.exp(1j * (X - Y)))) / len(X)\<close>
\<close>

definition plv :: "complex128 list \<Rightarrow> complex128 list \<Rightarrow> float64" where
  "plv X Y =
     np_div (np_abs (np_sum (map (\<lambda>d. np_exp (np_mul j1 d)) (map2 np_sub X Y))))
            (Some (real (length X)))"

text \<open>
  \<^verbatim>\<open>_coh\<close>: \<^verbatim>\<open>X_phase = X / np.abs(X)\<close>, \<^verbatim>\<open>Y_phase = Y / np.abs(Y)\<close>,
  \<^verbatim>\<open>Sxy = np.abs(X) * np.abs(Y) * np.exp(1j * (X_phase - Y_phase))\<close>,
  \<^verbatim>\<open>Sxx = np.abs(X)**2\<close>, \<^verbatim>\<open>Syy = np.abs(Y)**2\<close>,
  \<^verbatim>\<open>coh = np.abs(Sxy/(np.sqrt(Sxx*Syy)))\<close>, \<^verbatim>\<open>return np.nanmean(coh)\<close>.
\<close>

definition unit_phase :: "complex128 \<Rightarrow> complex128" where
  "unit_phase z = np_div z (as_complex (np_abs z))"

definition coh :: "complex128 list \<Rightarrow> complex128 list \<Rightarrow> float64" where
  "coh X Y =
     (let X_phase = map unit_phase X;
          Y_phase = map unit_phase Y;
          Sxy = map2 (\<lambda>(x, y) d. np_mul (as_complex (np_mul (np_abs x) (np_abs y)))
                                          (np_exp (np_mul j1 d)))
                     (zip X Y) (map2 np_sub X_phase Y_phase);
          Sxx = map (\<lambda>x. np_square (np_abs x)) X;
          Syy = map (\<lambda>y. np_square (np_abs y)) Y;
          coh = map2 (\<lambda>s d. np_abs (np_div s (as_complex d)))
                     Sxy (map np_sqrt (map2 np_mul Sxx Syy))
      in np_nanmean coh)"

text \<open>
  \<^verbatim>\<open>_icoh\<close>: as \<^verbatim>\<open>_coh\<close> with
  \<^verbatim>\<open>iSxy = np.abs(X) * np.abs(Y) * np.sin(X_phase - Y_phase)\<close>.
\<close>

definition icoh :: "complex128 list \<Rightarrow> complex128 list \<Rightarrow> float64" where
  "icoh X Y =
     (let X_phase = map unit_phase X;
          Y_phase = map unit_phase Y;
          iSxy = map2 (\<lambda>(x, y) d. np_mul (as_complex (np_mul (np_abs x) (np_abs y)))
                                           (np_sin d))
                      (zip X Y) (map2 np_sub X_phase Y_phase);
          Sxx = map (\<lambda>x. np_square (np_abs x)) X;
          Syy = map (\<lambda>y. np_square (np_abs y)) Y;
          icoh = map2 (\<lambda>s d. np_abs (np_div s (as_complex d)))
                      iSxy (map np_sqrt (map2 np_mul Sxx Syy))
      in np_nanmean icoh)"

text \<open>\<^verbatim>\<open>_proj_power_corr\<close>, line by line.\<close>

definition proj_power_corr :: "complex128 list \<Rightarrow> complex128 list \<Rightarrow> float64" where
  "proj_power_corr X Y =
     (let X_abs = map np_abs X;
          Y_abs = map np_abs Y;
          X_unit = map2 (\<lambda>x a. np_div x (as_complex a)) X X_abs;
          Y_unit = map2 (\<lambda>y a. np_div y (as_complex a)) Y Y_abs;
          X_abs_norm = map (\<lambda>a. np_div (np_sub a (np_nanmean X_abs)) (np_nanstd X_abs)) X_abs;
          Y_abs_norm = map (\<lambda>a. np_div (np_sub a (np_nanmean Y_abs)) (np_nanstd Y_abs)) Y_abs;
          X' = map (\<lambda>a. np_div a (np_nanstd X_abs)) X_abs;
          Y' = map (\<lambda>a. np_div a (np_nanstd Y_abs)) Y_abs;
          X_z = map2 (\<lambda>a u. np_mul (as_complex a) u) X' X_unit;
          Y_z = map2 (\<lambda>a u. np_mul (as_complex a) u) Y' Y_unit;
          projX = map2 (\<lambda>z u. np_imag (np_mul z (np_conjugate u))) X_z Y_unit;
          projY = map2 (\<lambda>z u. np_imag (np_mul z (np_conjugate u))) Y_z X_unit;
          projX_norm = map (\<lambda>p. np_div (np_sub p (np_nanmean projX)) (np_nanstd projX)) projX;
          projY_norm = map (\<lambda>p. np_div (np_sub p (np_nanmean projY)) (np_nanstd projY)) projY;
          proj_corr = np_div (np_add (np_nanmean (map2 np_mul projX_norm Y_abs_norm))
                                     (np_nanmean (map2 np_mul projY_norm X_abs_norm)))
                             (Some 2)
      in proj_corr)"

section \<open>Strings, errors, arrays\<close>

text \<open>
  \<^verbatim>\<open>compute_sync\<close> compares its \<^verbatim>\<open>mode\<close> argument with string literals by \<^verbatim>\<open>is\<close>,
  the identity of objects, so a Python \<^verbatim>\<open>str\<close> is modelled with its identity. CPython
  interns the string constants of compiled code that look like identifiers: every literal
  \<^verbatim>\<open>'plv'\<close> in any module denotes the one object \<open>Interned ''plv''\<close>. A \<^verbatim>\<open>str\<close> built at
  run time (joined, sliced, decoded from a file or the command line) is an object of its
  own, \<open>Built n s\<close>, with the same characters \<open>s\<close>; \<open>n\<close> tells such objects apart.
\<close>

datatype pystr = Interned string | Built nat string

fun chars :: "pystr \<Rightarrow> string" where
  "chars (Interned s) = s"
| "chars (Built n s) = s"

definition py_is :: "pystr \<Rightarrow> pystr \<Rightarrow> bool" where
  "py_is a b = (a = b)"

definition py_eq :: "pystr \<Rightarrow> pystr \<Rightarrow> bool" where
  "py_eq a b = (chars a = chars b)"

text \<open>
  The exceptions, under the names the specification gives the documented ones:
  \<^item> \<open>InputMismatch\<close>: the \<^verbatim>\<open>AssertionError\<close> of \<^verbatim>\<open>assert data[0].shape[0] == data[1].shape[0]\<close>
    (in \<^verbatim>\<open>simple_corr\<close> and in \<^verbatim>\<open>compute_freq_bands\<close>);
  \<^item> \<open>ShapeMismatch\<close>: the \<^verbatim>\<open>AssertionError\<close> of the assertion on \<^verbatim>\<open>complex_signal.shape\<close>
    that ends \<^verbatim>\<open>compute_freq_bands\<close>;
  \<^item> \<open>UnsupportedMetric msg\<close>: \<^verbatim>\<open>NameError(msg)\<close> raised by \<^verbatim>\<open>compute_sync\<close>;
  \<^item> \<open>UnboundLocalError v\<close>: Python's error for reading the local variable \<open>v\<close> before
    any assignment to it;
  \<^item> \<open>IndexError\<close>, \<open>ValueError\<close>, \<open>AxisError\<close>: raised by list indexing and by numpy;
  \<^item> \<open>Collaborator msg\<close>: any exception raised inside mne or scipy, which propagates.
\<close>

datatype error =
    InputMismatch
  | ShapeMismatch
  | UnsupportedMetric string
  | UnboundLocalError string
  | IndexError
  | ValueError
  | AxisError
  | Collaborator string

text \<open>
  An array that the caller or a collaborator hands over is its shape and its indexing
  function; the code reads no index outside the shape. The analytic signal has shape
  \<open>(2, shape1, shape2, shape3, shape4)\<close>: the subject axis has length 2 (the code indexes
  it with 0 and 1 and never reads its length).
\<close>

record 'a ndarray3 =
  len0 :: nat
  len1 :: nat
  len2 :: nat
  at3 :: "nat \<Rightarrow> nat \<Rightarrow> nat \<Rightarrow> 'a"

record 'a ndarray4 =
  dim0 :: nat
  dim1 :: nat
  dim2 :: nat
  dim3 :: nat
  at4 :: "nat \<Rightarrow> nat \<Rightarrow> nat \<Rightarrow> nat \<Rightarrow> 'a"

record 'a ndarray5 =
  shape1 :: nat
  shape2 :: nat
  shape3 :: nat
  shape4 :: nat
  at5 :: "nat \<Rightarrow> nat \<Rightarrow> nat \<Rightarrow> nat \<Rightarrow> nat \<Rightarrow> 'a"

text \<open>An operation applied to every element (\<^verbatim>\<open>np.abs(a)\<close>, \<^verbatim>\<open>a / np.abs(a)\<close>, ...).\<close>

definition elementwise :: "('a \<Rightarrow> 'b) \<Rightarrow> 'a ndarray5 \<Rightarrow> 'b ndarray5" where
  "elementwise g a =
     \<lparr>shape1 = shape1 a, shape2 = shape2 a, shape3 = shape3 a, shape4 = shape4 a,
      at5 = (\<lambda>n epoch ch freq t. g (at5 a n epoch ch freq t))\<rparr>"

text \<open>\<^verbatim>\<open>a[n, epoch, ch, freq, :]\<close>\<close>

definition slice :: "'a ndarray5 \<Rightarrow> nat \<Rightarrow> nat \<Rightarrow> nat \<Rightarrow> nat \<Rightarrow> 'a list" where
  "slice a n epoch ch freq = map (at5 a n epoch ch freq) [0..<shape4 a]"

text \<open>
  \<^verbatim>\<open>strands = np.array([np.concatenate(values[n], axis=2) for n in range(2)])\<close>:
  \<^verbatim>\<open>values[n]\<close> is read as the sequence of its epochs, each of shape (channels, frequencies,
  samples), and they are joined along the sample axis. With no epoch \<^verbatim>\<open>np.concatenate\<close>
  raises \<^verbatim>\<open>ValueError\<close> (need at least one array to concatenate). The result is given by
  its slices \<^verbatim>\<open>strands[n, ch, freq, :]\<close>.
\<close>

definition concatenate_epochs :: "'a ndarray5 \<Rightarrow> error + (nat \<Rightarrow> nat \<Rightarrow> nat \<Rightarrow> 'a list)" where
  "concatenate_epochs values =
     (if shape1 values = 0 then Inl ValueError
      else Inr (\<lambda>n ch freq.
                  concat (map (\<lambda>epoch. slice values n epoch ch freq) [0..<shape1 values])))"

text \<open>
  An array that the code builds from nested lists (\<^verbatim>\<open>np.array([[...] for ...])\<close>) is the
  nesting itself. Its shape is the one numpy finds: the lengths along the first elements,
  down to an element or to an empty list. So \<^verbatim>\<open>np.array([[], []])\<close> has shape (2, 0) and
  \<^verbatim>\<open>np.array([])\<close> has shape (0,), whatever the deeper levels would have held.
\<close>

datatype 'a nd = Scalar 'a | Arr "'a nd list"

fun shape :: "'a nd \<Rightarrow> nat list" where
  "shape (Scalar x) = []"
| "shape (Arr []) = [0]"
| "shape (Arr (x # xs)) = Suc (length xs) # shape x"

text \<open>\<^verbatim>\<open>a[i0, i1, ...]\<close> with one index for each axis; \<open>None\<close> where numpy raises.\<close>

fun nd_get :: "'a nd \<Rightarrow> nat list \<Rightarrow> 'a option" where
  "nd_get (Scalar x) [] = Some x"
| "nd_get (Arr xs) (i # idx) = (if i < length xs then nd_get (xs ! i) idx else None)"
| "nd_get (Scalar x) (i # idx) = None"
| "nd_get (Arr xs) [] = None"

text \<open>The array of a given shape whose element at \<open>idx\<close> is \<open>g idx\<close>.\<close>

primrec tabulate :: "nat list \<Rightarrow> (nat list \<Rightarrow> 'a) \<Rightarrow> 'a nd" where
  "tabulate [] g = Scalar (g [])"
| "tabulate (n # ns) g = Arr (map (\<lambda>i. tabulate ns (\<lambda>idx. g (i # idx))) [0..<n])"

text \<open>
  \<^verbatim>\<open>np.nanmean(result, axis=1)\<close>: an array with fewer than two axes has no axis 1
  (\<^verbatim>\<open>AxisError\<close>); otherwise axis 1 is removed and each element of the result is the
  NaN-skipping mean along it (NaN where that axis is empty). Every index read lies
  inside the shape, so the \<open>None\<close> of \<open>nd_get\<close> never occurs on an array built from
  regular nested lists.
\<close>

definition entry :: "'a option nd \<Rightarrow> nat list \<Rightarrow> 'a option" where
  "entry a idx = (case nd_get a idx of Some v \<Rightarrow> v | None \<Rightarrow> NaN)"

definition np_nanmean_axis1 :: "float64 nd \<Rightarrow> error + float64 nd" where
  "np_nanmean_axis1 result =
     (case shape result of
        a # b # rest \<Rightarrow>
          Inr (tabulate (a # rest)
                 (\<lambda>idx. np_nanmean (map (\<lambda>epoch. entry result (hd idx # epoch # tl idx)) [0..<b])))
      | _ \<Rightarrow> Inl AxisError)"

section \<open>The collaborators\<close>

text \<open>
  The numerical primitives of numpy, astropy, mne and scipy that the code calls and the
  specification treats as black boxes are parameters of the model:
  \<^item> \<open>np_corrcoef X Y\<close> is \<^verbatim>\<open>np.corrcoef([X, Y])[0][1]\<close>;
  \<^item> \<open>circcorrcoef X Y\<close> is astropy's \<^verbatim>\<open>circcorrcoef(X, Y)\<close>;
  \<^item> \<open>tfr_array_multitaper epoch_data sfreq freqs n_cycles zero_mean use_fft decim output\<close>
    is \<^verbatim>\<open>mne.time_frequency.tfr_array_multitaper\<close>;
  \<^item> \<open>filter_data data sfreq l_freq h_freq\<close> is \<^verbatim>\<open>mne.filter.filter_data\<close>;
  \<^item> \<open>hilbert x\<close> is \<^verbatim>\<open>scipy.signal.hilbert\<close>.
  The last three may raise (\<open>Inl\<close> with the exception's text).
\<close>

record collaborators =
  np_corrcoef :: "float64 list \<Rightarrow> float64 list \<Rightarrow> float64"
  circcorrcoef :: "float64 list \<Rightarrow> float64 list \<Rightarrow> float64"
  tfr_array_multitaper ::
    "float64 ndarray3 \<Rightarrow> nat \<Rightarrow> int list \<Rightarrow> nat \<Rightarrow> bool \<Rightarrow> bool \<Rightarrow> nat \<Rightarrow> string
       \<Rightarrow> string + complex128 ndarray4"
  filter_data :: "float64 ndarray3 \<Rightarrow> nat \<Rightarrow> real \<Rightarrow> real \<Rightarrow> string + float64 ndarray3"
  hilbert :: "float64 ndarray4 \<Rightarrow> string + complex128 ndarray4"

text \<open>\<^verbatim>\<open>def _corrcoef(X, Y): return np.corrcoef([X, Y])[0][1]\<close>\<close>

definition corrcoef :: "collaborators \<Rightarrow> float64 list \<Rightarrow> float64 list \<Rightarrow> float64" where
  "corrcoef ext X Y = np_corrcoef ext X Y"

section \<open>\<^verbatim>\<open>compute_sync\<close>\<close>

text \<open>
  The seven branches of each half of \<^verbatim>\<open>compute_sync\<close> hold the same nested comprehension,
  up to the metric \<open>m\<close> and the array \<open>values\<close>:
  \<^verbatim>\<open>np.array([[[[m(values[0, epoch, ch_i, freq, :], values[1, epoch, ch_j, freq, :])
      for ch_i in range(n_ch)] for ch_j in range(n_ch)]
      for epoch in range(n_epoch)] for freq in range(n_freq)])\<close>
  The innermost list runs over \<open>ch_i\<close>.
\<close>

definition epoch_wise_array ::
  "('a list \<Rightarrow> 'a list \<Rightarrow> float64) \<Rightarrow> (nat \<Rightarrow> nat \<Rightarrow> nat \<Rightarrow> nat \<Rightarrow> 'a list)
     \<Rightarrow> nat \<Rightarrow> nat \<Rightarrow> nat \<Rightarrow> float64 nd" where
  "epoch_wise_array m values n_freq n_epoch n_ch =
     Arr (map (\<lambda>freq.
       Arr (map (\<lambda>epoch.
         Arr (map (\<lambda>ch_j.
           Arr (map (\<lambda>ch_i.
             Scalar (m (values 0 epoch ch_i freq) (values 1 epoch ch_j freq)))
             [0..<n_ch]))
           [0..<n_ch]))
         [0..<n_epoch]))
       [0..<n_freq])"

text \<open>
  \<^verbatim>\<open>np.array([[[m(strands[0, ch_i, freq, :], strands[1, ch_j, freq, :])
      for ch_i in range(n_ch)] for ch_j in range(n_ch)] for freq in range(n_freq)])\<close>
\<close>

definition concatenated_array ::
  "('a list \<Rightarrow> 'a list \<Rightarrow> float64) \<Rightarrow> (nat \<Rightarrow> nat \<Rightarrow> nat \<Rightarrow> 'a list)
     \<Rightarrow> nat \<Rightarrow> nat \<Rightarrow> float64 nd" where
  "concatenated_array m strands n_freq n_ch =
     Arr (map (\<lambda>freq.
       Arr (map (\<lambda>ch_j.
         Arr (map (\<lambda>ch_i.
           Scalar (m (strands 0 ch_i freq) (strands 1 ch_j freq)))
           [0..<n_ch]))
         [0..<n_ch]))
       [0..<n_freq])"

text \<open>\<^verbatim>\<open>raise NameError('Sychrony metric ' + mode + ' not supported.')\<close>\<close>

definition not_supported :: "pystr \<Rightarrow> error" where
  "not_supported mode = UnsupportedMetric (''Sychrony metric '' @ chars mode @ '' not supported.'')"

text \<open>The block under \<^verbatim>\<open>if epoch_wise:\<close>, up to the test of \<^verbatim>\<open>time_resolved\<close>.\<close>

definition epoch_wise_branch ::
  "collaborators \<Rightarrow> complex128 ndarray5 \<Rightarrow> pystr \<Rightarrow> nat \<Rightarrow> nat \<Rightarrow> nat \<Rightarrow> error + float64 nd" where
  "epoch_wise_branch ext complex_signal mode n_epoch n_ch n_freq =
     (if py_is mode (Interned ''envelope'') then
        (let values = elementwise np_abs complex_signal
         in Inr (epoch_wise_array (corrcoef ext) (slice values) n_freq n_epoch n_ch))
      else if py_is mode (Interned ''power'') then
        (let values = elementwise (\<lambda>z. np_square (np_abs z)) complex_signal
         in Inr (epoch_wise_array (corrcoef ext) (slice values) n_freq n_epoch n_ch))
      else if py_is mode (Interned ''plv'') then
        (let values = elementwise (\<lambda>z. np_div z (as_complex (np_abs z))) complex_signal
         in Inr (epoch_wise_array plv (slice values) n_freq n_epoch n_ch))
      else if py_is mode (Interned ''ccorr'') then
        (let values = elementwise np_angle complex_signal
         in Inr (epoch_wise_array (circcorrcoef ext) (slice values) n_freq n_epoch n_ch))
      else if py_is mode (Interned ''proj'') then
        (let values = complex_signal
         in Inr (epoch_wise_array proj_power_corr (slice values) n_freq n_epoch n_ch))
      else if py_is mode (Interned ''imagcoh'') then
        (let values = complex_signal
         in Inr (epoch_wise_array icoh (slice values) n_freq n_epoch n_ch))
      else if py_is mode (Interned ''coh'') then
        (let values = complex_signal
         in Inr (epoch_wise_array coh (slice values) n_freq n_epoch n_ch))
      else Inl (not_supported mode))"

text \<open>The block under \<^verbatim>\<open>else:\<close> (epochs concatenated).\<close>

definition concatenated_with ::
  "('a list \<Rightarrow> 'a list \<Rightarrow> float64) \<Rightarrow> 'a ndarray5 \<Rightarrow> nat \<Rightarrow> nat \<Rightarrow> error + float64 nd" where
  "concatenated_with m values n_freq n_ch =
     (case concatenate_epochs values of
        Inl e \<Rightarrow> Inl e
      | Inr strands \<Rightarrow> Inr (concatenated_array m strands n_freq n_ch))"

definition concatenated_branch ::
  "collaborators \<Rightarrow> complex128 ndarray5 \<Rightarrow> pystr \<Rightarrow> nat \<Rightarrow> nat \<Rightarrow> error + float64 nd" where
  "concatenated_branch ext complex_signal mode n_ch n_freq =
     (if py_is mode (Interned ''envelope'') then
        (let values = elementwise np_abs complex_signal
         in concatenated_with (corrcoef ext) values n_freq n_ch)
      else if py_is mode (Interned ''power'') then
        (let values = elementwise (\<lambda>z. np_square (np_abs z)) complex_signal
         in concatenated_with (corrcoef ext) values n_freq n_ch)
      else if py_is mode (Interned ''plv'') then
        (let values = elementwise (\<lambda>z. np_div z (as_complex (np_abs z))) complex_signal
         in concatenated_with plv values n_freq n_ch)
      else if py_is mode (Interned ''ccorr'') then
        (let values = elementwise np_angle complex_signal
         in concatenated_with (circcorrcoef ext) values n_freq n_ch)
      else if py_is mode (Interned ''proj'') then
        (let values = complex_signal
         in concatenated_with proj_power_corr values n_freq n_ch)
      else if py_is mode (Interned ''imagcoh'') then
        (let values = complex_signal
         in concatenated_with icoh values n_freq n_ch)
      else if py_is mode (Interned ''coh'') then
        (let values = complex_signal
         in concatenated_with coh values n_freq n_ch)
      else Inl (not_supported mode))"

definition compute_sync ::
  "collaborators \<Rightarrow> complex128 ndarray5 \<Rightarrow> pystr \<Rightarrow> bool \<Rightarrow> bool \<Rightarrow> error + float64 nd" where
  "compute_sync ext complex_signal mode epoch_wise time_resolved =
     (let n_epoch = shape1 complex_signal;
          n_ch = shape2 complex_signal;
          n_freq = shape3 complex_signal;
          n_samp = shape4 complex_signal
      in if epoch_wise then
           (case epoch_wise_branch ext complex_signal mode n_epoch n_ch n_freq of
              Inl e \<Rightarrow> Inl e
            | Inr result \<Rightarrow>
                if time_resolved then np_nanmean_axis1 result else Inr result)
         else concatenated_branch ext complex_signal mode n_ch n_freq)"

section \<open>The analytic signal and \<^verbatim>\<open>simple_corr\<close>\<close>

text \<open>Sequencing: the first exception ends the computation.\<close>

definition and_then :: "error + 'a \<Rightarrow> ('a \<Rightarrow> error + 'b) \<Rightarrow> error + 'b" where
  "and_then r k = (case r of Inl e \<Rightarrow> Inl e | Inr v \<Rightarrow> k v)"

definition from_collaborator :: "string + 'a \<Rightarrow> error + 'a" where
  "from_collaborator r = (case r of Inl msg \<Rightarrow> Inl (Collaborator msg) | Inr v \<Rightarrow> Inr v)"

definition dims3 :: "'a ndarray3 \<Rightarrow> nat \<times> nat \<times> nat" where
  "dims3 a = (len0 a, len1 a, len2 a)"

definition dims4 :: "'a ndarray4 \<Rightarrow> nat \<times> nat \<times> nat \<times> nat" where
  "dims4 a = (dim0 a, dim1 a, dim2 a, dim3 a)"

text \<open>
  \<^verbatim>\<open>np.array([a, b])\<close> of two arrays: a new leading axis of length 2. Arrays of different
  shapes do not stack (\<^verbatim>\<open>ValueError\<close>).
\<close>

definition stack3 :: "'a ndarray3 \<Rightarrow> 'a ndarray3 \<Rightarrow> error + 'a ndarray4" where
  "stack3 a b =
     (if dims3 a = dims3 b
      then Inr \<lparr>dim0 = 2, dim1 = len0 a, dim2 = len1 a, dim3 = len2 a,
                at4 = (\<lambda>n. if n = 0 then at3 a else at3 b)\<rparr>
      else Inl ValueError)"

definition stack4 :: "'a ndarray4 \<Rightarrow> 'a ndarray4 \<Rightarrow> error + 'a ndarray5" where
  "stack4 a b =
     (if dims4 a = dims4 b
      then Inr \<lparr>shape1 = dim0 a, shape2 = dim1 a, shape3 = dim2 a, shape4 = dim3 a,
                at5 = (\<lambda>n. if n = 0 then at4 a else at4 b)\<rparr>
      else Inl ValueError)"

text \<open>\<^verbatim>\<open>np.arange(start, stop, 1)\<close> on integers.\<close>

definition np_arange :: "int \<Rightarrow> int \<Rightarrow> int list" where
  "np_arange start stop = [start..stop - 1]"

text \<open>
  \<^verbatim>\<open>compute_single_freq(data, freq_range)\<close>; \<open>data\<close> is the pair \<^verbatim>\<open>(data[0], data[1])\<close>.
  Reading \<^verbatim>\<open>freq_range[1]\<close> of a shorter list raises \<^verbatim>\<open>IndexError\<close>.
\<close>

definition compute_single_freq ::
  "collaborators \<Rightarrow> float64 ndarray3 \<times> float64 ndarray3 \<Rightarrow> int list \<Rightarrow> error + complex128 ndarray5" where
  "compute_single_freq ext data freq_range =
     (let n_samp = len2 (fst data)
      in case freq_range of
           f0 # f1 # _ \<Rightarrow>
             and_then (from_collaborator
                         (tfr_array_multitaper ext (fst data) n_samp (np_arange f0 f1)
                            4 False True 1 ''complex''))
               (\<lambda>subject0.
             and_then (from_collaborator
                         (tfr_array_multitaper ext (snd data) n_samp (np_arange f0 f1)
                            4 False True 1 ''complex''))
               (\<lambda>subject1. stack4 subject0 subject1))
         | _ \<Rightarrow> Inl IndexError)"

text \<open>
  The body of the loop of \<^verbatim>\<open>compute_freq_bands\<close> for one band:
  \<^verbatim>\<open>filtered = np.array([mne.filter.filter_data(data[subject], n_samp, freq_band[0],
      freq_band[1], verbose=False) for subject in range(2)])\<close>, 
  \<^verbatim>\<open>hilb = signal.hilbert(filtered)\<close>.
\<close>

definition band_signal ::
  "collaborators \<Rightarrow> float64 ndarray3 \<times> float64 ndarray3 \<Rightarrow> nat \<Rightarrow> real list
     \<Rightarrow> error + complex128 ndarray4" where
  "band_signal ext data n_samp freq_band =
     (case freq_band of
        lo # hi # _ \<Rightarrow>
          and_then (from_collaborator (filter_data ext (fst data) n_samp lo hi))
            (\<lambda>subject0.
          and_then (from_collaborator (filter_data ext (snd data) n_samp lo hi))
            (\<lambda>subject1.
          and_then (stack3 subject0 subject1)
            (\<lambda>filtered. from_collaborator (hilbert ext filtered))))
      | _ \<Rightarrow> Inl IndexError)"

text \<open>\<^verbatim>\<open>for freq_band in freq_bands.values(): ...; complex_signal.append(hilb)\<close>\<close>

fun band_signals ::
  "collaborators \<Rightarrow> float64 ndarray3 \<times> float64 ndarray3 \<Rightarrow> nat \<Rightarrow> real list list
     \<Rightarrow> error + complex128 ndarray4 list" where
  "band_signals ext data n_samp [] = Inr []"
| "band_signals ext data n_samp (freq_band # rest) =
     and_then (band_signal ext data n_samp freq_band)
       (\<lambda>hilb. and_then (band_signals ext data n_samp rest)
          (\<lambda>complex_signal. Inr (hilb # complex_signal)))"

text \<open>
  \<^verbatim>\<open>np.moveaxis(np.array(complex_signal), [0], [3])\<close> on the list of the bands' arrays:
  an empty list makes a one-dimensional array, which has no axis 3 (\<^verbatim>\<open>AxisError\<close>);
  arrays of different shapes do not stack (\<^verbatim>\<open>ValueError\<close>); otherwise the bands become
  the fourth axis, in the list's order. The result is given with its full shape.
\<close>

definition moveaxis_bands ::
  "'a ndarray4 list \<Rightarrow> error + ((nat \<times> nat \<times> nat \<times> nat \<times> nat) \<times> 'a ndarray5)" where
  "moveaxis_bands complex_signal =
     (case complex_signal of
        [] \<Rightarrow> Inl AxisError
      | h # hs \<Rightarrow>
          if list_all (\<lambda>x. dims4 x = dims4 h) hs
          then Inr ((dim0 h, dim1 h, dim2 h, length complex_signal, dim3 h),
                    \<lparr>shape1 = dim1 h, shape2 = dim2 h, shape3 = length complex_signal,
                     shape4 = dim3 h,
                     at5 = (\<lambda>n epoch ch band t. at4 (complex_signal ! band) n epoch ch t)\<rparr>)
          else Inl ValueError)"

text \<open>
  \<^verbatim>\<open>compute_freq_bands(data, freq_bands)\<close>. A dict is the list of its items in iteration
  order; \<^verbatim>\<open>freq_bands.values()\<close> is \<open>map snd freq_bands\<close>. \<^verbatim>\<open>data = np.array(data)\<close>
  stacks the two subjects, which raises unless their shapes agree; \<^verbatim>\<open>data[subject]\<close> is
  then the subject's array again.
\<close>

definition compute_freq_bands ::
  "collaborators \<Rightarrow> float64 ndarray3 \<times> float64 ndarray3 \<Rightarrow> (string \<times> real list) list
     \<Rightarrow> error + complex128 ndarray5" where
  "compute_freq_bands ext data freq_bands =
     (if len0 (fst data) \<noteq> len0 (snd data) then Inl InputMismatch
      else
        let n_epoch = len0 (fst data);
            n_ch = len1 (fst data);
            n_samp = len2 (fst data)
        in and_then (stack3 (fst data) (snd data))
             (\<lambda>stacked.
           and_then (band_signals ext data n_samp (map snd freq_bands))
             (\<lambda>complex_signal.
           and_then (moveaxis_bands complex_signal)
             (\<lambda>(shape_of_signal, complex_signal).
                if shape_of_signal = (2, n_epoch, n_ch, length freq_bands, n_samp)
                then Inr complex_signal
                else Inl ShapeMismatch))))"

text \<open>
  The \<^verbatim>\<open>frequencies\<close> argument of \<^verbatim>\<open>simple_corr\<close>: a list, a dict, or a value of any
  other type (a tuple, an ndarray, \<^verbatim>\<open>None\<close>, ...).
\<close>

datatype pyvalue = PyList "int list" | PyDict "(string \<times> real list) list" | PyOther

text \<open>
  \<^verbatim>\<open>simple_corr\<close>. The local variable \<^verbatim>\<open>values\<close> is assigned in the \<^verbatim>\<open>if\<close> and in the
  \<^verbatim>\<open>elif\<close> only: it is \<open>None\<close> while unbound, and reading it then raises
  \<^verbatim>\<open>UnboundLocalError\<close>.
\<close>

definition simple_corr ::
  "collaborators \<Rightarrow> float64 ndarray3 \<times> float64 ndarray3 \<Rightarrow> pyvalue \<Rightarrow> pystr \<Rightarrow> bool \<Rightarrow> bool
     \<Rightarrow> error + float64 nd" where
  "simple_corr ext data frequencies mode epoch_wise time_resolved =
     (if len0 (fst data) \<noteq> len0 (snd data) then Inl InputMismatch
      else
        and_then
          (case frequencies of
             PyList freq_range \<Rightarrow>
               and_then (compute_single_freq ext data freq_range) (\<lambda>v. Inr (Some v))
           | PyDict freq_bands \<Rightarrow>
               and_then (compute_freq_bands ext data freq_bands) (\<lambda>v. Inr (Some v))
           | PyOther \<Rightarrow> Inr None)
          (\<lambda>values.
             case values of
               None \<Rightarrow> Inl (UnboundLocalError ''values'')
             | Some complex_signal \<Rightarrow>
                 compute_sync ext complex_signal mode epoch_wise time_resolved))"

section \<open>What the claims speak of\<close>

text \<open>The metric names of the docstring of \<^verbatim>\<open>simple_corr\<close>.\<close>

definition supported_metrics :: "string list" where
  "supported_metrics = [''envelope'', ''power'', ''plv'', ''ccorr'', ''coh'', ''imagcoh'', ''proj'']"

text \<open>
  The value that the branch of \<^verbatim>\<open>compute_sync\<close> for the metric \<open>name\<close> computes from two
  sequences \<open>X\<close> and \<open>Y\<close> of the analytic signal: the branch's transform of the samples,
  then the branch's metric function.
\<close>

definition pair_value ::
  "collaborators \<Rightarrow> string \<Rightarrow> complex128 list \<Rightarrow> complex128 list \<Rightarrow> float64" where
  "pair_value ext name X Y =
     (if name = ''envelope'' then corrcoef ext (map np_abs X) (map np_abs Y)
      else if name = ''power'' then
        corrcoef ext (map (\<lambda>z. np_square (np_abs z)) X) (map (\<lambda>z. np_square (np_abs z)) Y)
      else if name = ''plv'' then
        plv (map (\<lambda>z. np_div z (as_complex (np_abs z))) X)
            (map (\<lambda>z. np_div z (as_complex (np_abs z))) Y)
      else if name = ''ccorr'' then circcorrcoef ext (map np_angle X) (map np_angle Y)
      else if name = ''proj'' then proj_power_corr X Y
      else if name = ''imagcoh'' then icoh X Y
      else coh X Y)"

text \<open>
  The phase locking value as the specification words it: the length of the sum of
  \<^verbatim>\<open>exp(i (phiX - phiY))\<close> over the samples, divided by the number of samples, where
  \<^verbatim>\<open>phiX\<close> and \<^verbatim>\<open>phiY\<close> are the phase angles of the samples.
\<close>

definition mean_resultant_length :: "complex128 list \<Rightarrow> complex128 list \<Rightarrow> float64" where
  "mean_resultant_length X Y =
     np_div (np_abs (np_sum (map2 (\<lambda>x y. np_exp (np_mul j1
                                        (as_complex (np_sub (np_angle x) (np_angle y)))))
                                  X Y)))
            (Some (real (length X)))"

text \<open>
  The coherence as the specification and the docstring of \<^verbatim>\<open>_coh\<close> word it: the
  NaN-skipping mean over the samples of \<^verbatim>\<open>|A1 A2 exp(i delta)| / sqrt(A1^2 A2^2)\<close>, where
  \<^verbatim>\<open>A1\<close> and \<^verbatim>\<open>A2\<close> are the amplitudes of the two samples and \<^verbatim>\<open>delta\<close> is the difference of
  their phase angles.
\<close>

definition mean_instantaneous_coherence :: "complex128 list \<Rightarrow> complex128 list \<Rightarrow> float64" where
  "mean_instantaneous_coherence X Y =
     np_nanmean
       (map2 (\<lambda>x y.
                np_div (np_abs (np_mul (as_complex (np_mul (np_abs x) (np_abs y)))
                                       (np_exp (np_mul j1
                                          (as_complex (np_sub (np_angle x) (np_angle y)))))))
                       (np_sqrt (np_mul (np_square (np_abs x)) (np_square (np_abs y)))))
             X Y)"

text \<open>
  The concatenated branch as the specification words it: for each subject all epochs are
  joined along the time axis first, one long sequence for each channel and frequency; the
  metric's transform is applied to the long sequences and the metric is evaluated once
  for each frequency and pair of channels. The result is laid out as the specification
  gives it, (frequency, channel_i, channel_j): the entry \<open>(freq, i, j)\<close> belongs to channel
  \<open>i\<close> of subject 0 and channel \<open>j\<close> of subject 1.
\<close>

definition long_sequence :: "'a ndarray5 \<Rightarrow> nat \<Rightarrow> nat \<Rightarrow> nat \<Rightarrow> 'a list" where
  "long_sequence a n ch freq = concat (map (\<lambda>epoch. slice a n epoch ch freq) [0..<shape1 a])"

definition sync_of_long_sequences ::
  "collaborators \<Rightarrow> complex128 ndarray5 \<Rightarrow> string \<Rightarrow> float64 nd" where
  "sync_of_long_sequences ext complex_signal name =
     Arr (map (\<lambda>freq.
       Arr (map (\<lambda>channel_i.
         Arr (map (\<lambda>channel_j.
           Scalar (pair_value ext name (long_sequence complex_signal 0 channel_i freq)
                                        (long_sequence complex_signal 1 channel_j freq)))
           [0..<shape2 complex_signal]))
         [0..<shape2 complex_signal]))
       [0..<shape3 complex_signal])"

text \<open>
  The NaN-skipping mean as the specification words it: the values that are NaN are left
  out of the sum and of the count; when every value is NaN (or there is none) the mean
  is NaN.
\<close>

definition mean_skipping_nan :: "float64 list \<Rightarrow> float64" where
  "mean_skipping_nan xs =
     (if list_all (\<lambda>x. x = NaN) xs then NaN
      else Some ((\<Sum>x\<leftarrow>xs. case x of Some v \<Rightarrow> v | None \<Rightarrow> 0)
                  / real (length (filter (\<lambda>x. x \<noteq> NaN) xs))))"

text \<open>
  The contract of the collaborators (section 6 of the specification): the multitaper
  transform without decimation returns an array of shape (epochs, channels, frequencies,
  samples); the band-pass filter and the Hilbert transform return an array of the shape
  of their input.
\<close>

definition shape_contract :: "collaborators \<Rightarrow> bool" where
  "shape_contract ext \<longleftrightarrow>
     (\<forall>d sfreq freqs n_cycles zero_mean use_fft output.
        \<exists>a. tfr_array_multitaper ext d sfreq freqs n_cycles zero_mean use_fft 1 output = Inr a
           \<and> dims4 a = (len0 d, len1 d, length freqs, len2 d)) \<and>
     (\<forall>d sfreq l_freq h_freq.
        \<exists>a. filter_data ext d sfreq l_freq h_freq = Inr a \<and> dims3 a = dims3 d) \<and>
     (\<forall>x. \<exists>a. hilbert ext x = Inr a \<and> dims4 a = dims4 x)"

section \<open>Concrete inputs\<close>

text \<open>
  Collaborators that keep the shape contract and compute nothing: the correlations are
  NaN, the transforms promote each sample to a complex number.
\<close>

definition plain_collaborators :: collaborators where
  "plain_collaborators =
     \<lparr>np_corrcoef = (\<lambda>X Y. NaN),
      circcorrcoef = (\<lambda>X Y. NaN),
      tfr_array_multitaper =
        (\<lambda>d sfreq freqs n_cycles zero_mean use_fft decim output.
           Inr \<lparr>dim0 = len0 d, dim1 = len1 d, dim2 = length freqs, dim3 = len2 d,
                at4 = (\<lambda>epoch ch freq t. as_complex (at3 d epoch ch t))\<rparr>),
      filter_data = (\<lambda>d sfreq l_freq h_freq. Inr d),
      hilbert =
        (\<lambda>x. Inr \<lparr>dim0 = dim0 x, dim1 = dim1 x, dim2 = dim2 x, dim3 = dim3 x,
                   at4 = (\<lambda>n epoch ch t. as_complex (at4 x n epoch ch t))\<rparr>)\<rparr>"

text \<open>A recording of the given shape (epochs, channels, samples), all samples 1.\<close>

definition recording :: "nat \<Rightarrow> nat \<Rightarrow> nat \<Rightarrow> float64 ndarray3" where
  "recording n_epochs n_channels n_times =
     \<lparr>len0 = n_epochs, len1 = n_channels, len2 = n_times, at3 = (\<lambda>epoch ch t. Some 1)\<rparr>"

text \<open>An analytic signal of the given shape, all samples 1.\<close>

definition constant_signal :: "nat \<Rightarrow> nat \<Rightarrow> nat \<Rightarrow> nat \<Rightarrow> complex128 ndarray5" where
  "constant_signal n_epoch n_ch n_freq n_samp =
     \<lparr>shape1 = n_epoch, shape2 = n_ch, shape3 = n_freq, shape4 = n_samp,
      at5 = (\<lambda>n epoch ch freq t. Some 1)\<rparr>"

text \<open>
  One channel, one frequency, one sample in each epoch: subject 0 holds \<open>a\<close> and subject 1
  holds \<open>b\<close>.
\<close>

definition two_sample_signal :: "nat \<Rightarrow> complex \<Rightarrow> complex \<Rightarrow> complex128 ndarray5" where
  "two_sample_signal n_epoch a b =
     \<lparr>shape1 = n_epoch, shape2 = 1, shape3 = 1, shape4 = 1,
      at5 = (\<lambda>n epoch ch freq t. if n = 0 then Some a else Some b)\<rparr>"

text \<open>
  One epoch, two channels, one frequency, one sample: channel 1 of subject 0 holds \<open>\<i>\<close>,
  every other sample is 1.
\<close>

definition two_channel_signal :: "complex128 ndarray5" where
  "two_channel_signal =
     \<lparr>shape1 = 1, shape2 = 2, shape3 = 1, shape4 = 1,
      at5 = (\<lambda>n epoch ch freq t. if n = 0 \<and> ch = 1 then Some \<i> else Some 1)\<rparr>"

text \<open>
  Three epochs of one channel, one frequency and one sample: subject 0 holds 1, \<open>2\<i>\<close>
  and 0 in the three epochs, subject 1 holds 1.
\<close>

definition three_epoch_signal :: "complex128 ndarray5" where
  "three_epoch_signal =
     \<lparr>shape1 = 3, shape2 = 1, shape3 = 1, shape4 = 1,
      at5 = (\<lambda>n epoch ch freq t.
               if n = 0 then (if epoch = 0 then Some 1 else if epoch = 1 then Some (2 * \<i>)
                              else Some 0)
               else Some 1)\<rparr>"

text \<open>
  Two epochs of two channels, one frequency and one sample: channel 1 of subject 0 holds
  \<open>2\<i>\<close> in epoch 0 and \<open>- 3\<i>\<close> in epoch 1, every other sample is 1.
\<close>

definition two_epoch_signal :: "complex128 ndarray5" where
  "two_epoch_signal =
     \<lparr>shape1 = 2, shape2 = 2, shape3 = 1, shape4 = 1,
      at5 = (\<lambda>n epoch ch freq t.
               if n = 0 \<and> ch = 1 then (if epoch = 0 then Some (2 * \<i>) else Some (- 3 * \<i>))
               else Some 1)\<rparr>"

text \<open>
  Two streams of one epoch, two channels and three samples, and the bands of the
  docstring of \<^verbatim>\<open>simple_corr\<close>.
\<close>

definition dyad :: "float64 ndarray3 \<times> float64 ndarray3" where
  "dyad = (recording 1 2 3, recording 1 2 3)"

definition alpha_beta :: "(string \<times> real list) list" where
  "alpha_beta = [(''alpha'', [8, 12]), (''beta'', [12, 20])]"

section \<open>Evaluation\<close>

lemmas np_defs =
  np_div_def np_abs_def np_sum_def np_add_def np_exp_def np_mul_def j1_def np_sub_def
  as_complex_def np_square_def np_sqrt_def np_nanmean_def not_nan_def List.map_filter_def
  np_angle_def

lemma upt_0_2: "[0..<2] = [0, 1]"
  by (simp add: eval_nat_numeral)

lemma upt_0_3: "[0..<3] = [0, 1, 2]"
  by (simp add: eval_nat_numeral)

lemma plv_opposed: "plv [Some (- \<i>)] [Some \<i>] = Some (exp 2)"
  by (simp add: plv_def np_defs)

lemma coh_opposed: "coh [Some (- \<i>)] [Some \<i>] = Some (exp 2)"
  by (simp add: coh_def unit_phase_def np_defs)

section \<open>Arrays built from nested lists\<close>

lemma shape_Arr_map:
  "shape (Arr (map F [0..<n])) = (if n = 0 then [0] else n # shape (F 0))"
proof (cases n)
  case 0
  then show ?thesis by simp
next
  case (Suc k)
  have "[0..<Suc k] = 0 # [Suc 0..<Suc k]"
    by (simp add: upt_conv_Cons)
  then show ?thesis
    using Suc by simp
qed

lemma nd_get_Arr_map:
  "nd_get (Arr (map F [0..<n])) (i # idx) = (if i < n then nd_get (F i) idx else None)"
  by simp

lemma shape_epoch_wise_array:
  "shape (epoch_wise_array m v n_freq n_epoch n_ch)
     = (if n_freq = 0 then [0]
        else if n_epoch = 0 then [n_freq, 0]
        else if n_ch = 0 then [n_freq, n_epoch, 0]
        else [n_freq, n_epoch, n_ch, n_ch])"
  by (simp add: epoch_wise_array_def shape_Arr_map)

lemma nd_get_epoch_wise_array:
  assumes "freq < n_freq" "epoch < n_epoch" "a < n_ch" "b < n_ch"
  shows "nd_get (epoch_wise_array m v n_freq n_epoch n_ch) [freq, epoch, a, b]
           = Some (m (v 0 epoch b freq) (v 1 epoch a freq))"
  using assms by (simp add: epoch_wise_array_def)

lemma shape_concatenated_array:
  "shape (concatenated_array m s n_freq n_ch)
     = (if n_freq = 0 then [0] else if n_ch = 0 then [n_freq, 0] else [n_freq, n_ch, n_ch])"
  by (simp add: concatenated_array_def shape_Arr_map)

lemma np_nanmean_axis1_epoch_wise_array:
  assumes "0 < n_freq" "0 < n_epoch" "0 < n_ch"
  shows "np_nanmean_axis1 (epoch_wise_array m v n_freq n_epoch n_ch)
     = Inr (tabulate [n_freq, n_ch, n_ch]
             (\<lambda>idx. np_nanmean
                      (map (\<lambda>epoch. entry (epoch_wise_array m v n_freq n_epoch n_ch)
                                          (hd idx # epoch # tl idx))
                           [0..<n_epoch])))"
  using assms by (simp add: np_nanmean_axis1_def shape_epoch_wise_array)

section \<open>Sequencing\<close>

lemma and_then_simps [simp]:
  "and_then (Inl e) k = Inl e" "and_then (Inr v) k = k v"
  by (simp_all add: and_then_def)

lemma and_then_Inl:
  "and_then r k = Inl e \<Longrightarrow> r = Inl e \<or> (\<exists>v. r = Inr v \<and> k v = Inl e)"
  by (cases r) simp_all

lemma from_collaborator_Inr [simp]: "from_collaborator (Inr v) = Inr v"
  by (simp add: from_collaborator_def)

section \<open>The dispatch on the metric\<close>

lemma pair_value_simps:
  "pair_value ext ''envelope'' X Y = corrcoef ext (map np_abs X) (map np_abs Y)"
  "pair_value ext ''power'' X Y =
     corrcoef ext (map (\<lambda>z. np_square (np_abs z)) X) (map (\<lambda>z. np_square (np_abs z)) Y)"
  "pair_value ext ''plv'' X Y =
     plv (map (\<lambda>z. np_div z (as_complex (np_abs z))) X)
         (map (\<lambda>z. np_div z (as_complex (np_abs z))) Y)"
  "pair_value ext ''ccorr'' X Y = circcorrcoef ext (map np_angle X) (map np_angle Y)"
  "pair_value ext ''proj'' X Y = proj_power_corr X Y"
  "pair_value ext ''imagcoh'' X Y = icoh X Y"
  "pair_value ext ''coh'' X Y = coh X Y"
  by (simp_all add: pair_value_def)

lemma supported_cases:
  assumes "name \<in> set supported_metrics"
  obtains "name = ''envelope''" | "name = ''power''" | "name = ''plv''"
    | "name = ''ccorr''" | "name = ''coh''" | "name = ''imagcoh''" | "name = ''proj''"
proof -
  from assms
  have "name = ''envelope'' \<or> name = ''power'' \<or> name = ''plv'' \<or> name = ''ccorr''
        \<or> name = ''coh'' \<or> name = ''imagcoh'' \<or> name = ''proj''"
    by (simp add: supported_metrics_def)
  then show thesis
    by (elim disjE) (erule that)+
qed

lemma slice_elementwise:
  "slice (elementwise g a) n epoch ch freq = map g (slice a n epoch ch freq)"
  by (simp add: slice_def elementwise_def)

lemma epoch_wise_branch_supported:
  assumes "name \<in> set supported_metrics"
  shows "epoch_wise_branch ext cs (Interned name) n_epoch n_ch n_freq
           = Inr (epoch_wise_array (pair_value ext name) (slice cs) n_freq n_epoch n_ch)"
  using assms
  by (cases rule: supported_cases)
     (simp_all add: epoch_wise_branch_def py_is_def epoch_wise_array_def slice_elementwise
        pair_value_simps)

lemma compute_sync_epoch_wise:
  assumes "name \<in> set supported_metrics"
  shows "compute_sync ext cs (Interned name) True False
           = Inr (epoch_wise_array (pair_value ext name) (slice cs)
                    (shape3 cs) (shape1 cs) (shape2 cs))"
  using assms by (simp add: compute_sync_def epoch_wise_branch_supported Let_def)

lemma shape_elementwise [simp]:
  "shape1 (elementwise g a) = shape1 a" "shape2 (elementwise g a) = shape2 a"
  "shape3 (elementwise g a) = shape3 a" "shape4 (elementwise g a) = shape4 a"
  by (simp_all add: elementwise_def)

lemma long_sequence_elementwise:
  "long_sequence (elementwise g a) n ch freq = map g (long_sequence a n ch freq)"
  by (simp add: long_sequence_def slice_elementwise map_concat comp_def)

lemma concatenate_epochs_eq:
  "concatenate_epochs a
     = (if shape1 a = 0 then Inl ValueError else Inr (long_sequence a))"
  by (auto simp: concatenate_epochs_def long_sequence_def intro!: ext)

lemma concatenated_branch_supported:
  assumes "name \<in> set supported_metrics"
  shows "concatenated_branch ext cs (Interned name) (shape2 cs) (shape3 cs)
           = (if shape1 cs = 0 then Inl ValueError
              else Inr (concatenated_array (pair_value ext name) (long_sequence cs)
                          (shape3 cs) (shape2 cs)))"
  using assms
  by (cases rule: supported_cases)
     (simp_all add: concatenated_branch_def concatenated_with_def py_is_def Let_def
        concatenate_epochs_eq long_sequence_elementwise concatenated_array_def
        pair_value_simps)

lemma nd_get_concatenated_array:
  assumes "freq < n_freq" "a < n_ch" "b < n_ch"
  shows "nd_get (concatenated_array m s n_freq n_ch) [freq, a, b]
           = Some (m (s 0 b freq) (s 1 a freq))"
  using assms by (simp add: concatenated_array_def)

lemma nd_get_sync_of_long_sequences:
  assumes "freq < shape3 cs" "a < shape2 cs" "b < shape2 cs"
  shows "nd_get (sync_of_long_sequences ext cs name) [freq, a, b]
           = Some (pair_value ext name (long_sequence cs 0 a freq) (long_sequence cs 1 b freq))"
  using assms by (simp add: sync_of_long_sequences_def)

text \<open>
  A name outside the seven is rejected in both branches, whatever the signal and the
  collaborators: no metric and no transform is evaluated. The message holds the name.
\<close>

lemma compute_sync_unsupported:
  assumes "chars mode \<notin> set supported_metrics"
  shows "compute_sync ext cs mode epoch_wise time_resolved
           = Inl (UnsupportedMetric (''Sychrony metric '' @ chars mode @ '' not supported.''))"
proof -
  from assms have "mode \<noteq> Interned ''envelope''" "mode \<noteq> Interned ''power''"
    "mode \<noteq> Interned ''plv''" "mode \<noteq> Interned ''ccorr''" "mode \<noteq> Interned ''proj''"
    "mode \<noteq> Interned ''imagcoh''" "mode \<noteq> Interned ''coh''"
    by (cases mode; simp add: supported_metrics_def)+
  then show ?thesis
    by (simp add: compute_sync_def epoch_wise_branch_def concatenated_branch_def py_is_def
          Let_def not_supported_def)
qed

text \<open>The errors of \<^verbatim>\<open>compute_sync\<close>.\<close>

lemma epoch_wise_branch_error:
  "epoch_wise_branch ext cs mode n_epoch n_ch n_freq = Inl e \<Longrightarrow> e = not_supported mode"
  by (simp add: epoch_wise_branch_def Let_def split: if_splits)

lemma concatenated_with_error:
  "concatenated_with m values n_freq n_ch = Inl e \<Longrightarrow> e = ValueError"
  by (simp add: concatenated_with_def concatenate_epochs_def split: if_splits)

lemma concatenated_branch_error:
  "concatenated_branch ext cs mode n_ch n_freq = Inl e
     \<Longrightarrow> e = not_supported mode \<or> e = ValueError"
  by (simp add: concatenated_branch_def Let_def split: if_splits)
     (auto dest: concatenated_with_error)

lemma np_nanmean_axis1_error: "np_nanmean_axis1 r = Inl e \<Longrightarrow> e = AxisError"
  by (simp add: np_nanmean_axis1_def split: list.splits)

lemma compute_sync_error:
  assumes "compute_sync ext cs mode epoch_wise time_resolved = Inl e"
  shows "e = not_supported mode \<or> e = ValueError \<or> e = AxisError"
  using assms
  by (auto simp: compute_sync_def Let_def split: if_splits sum.splits
        dest: epoch_wise_branch_error concatenated_branch_error np_nanmean_axis1_error)

text \<open>
  An interned supported name is never rejected as unsupported.
\<close>

lemma compute_sync_supported:
  assumes "name \<in> set supported_metrics"
  shows "compute_sync ext cs (Interned name) epoch_wise time_resolved \<noteq> Inl (UnsupportedMetric msg)"
proof (cases epoch_wise)
  case True
  then show ?thesis
    using assms np_nanmean_axis1_error
    by (auto simp: compute_sync_def Let_def epoch_wise_branch_supported)
next
  case False
  then show ?thesis
    using assms by (simp add: compute_sync_def Let_def concatenated_branch_supported)
qed

text \<open>The shape of the result when no axis is empty.\<close>

lemma compute_sync_shape:
  assumes "name \<in> set supported_metrics"
    and "0 < shape1 cs" and "0 < shape2 cs" and "0 < shape3 cs"
  shows "\<exists>r. compute_sync ext cs (Interned name) epoch_wise time_resolved = Inr r
           \<and> shape r = (if epoch_wise \<and> \<not> time_resolved
                         then [shape3 cs, shape1 cs, shape2 cs, shape2 cs]
                         else [shape3 cs, shape2 cs, shape2 cs])"
proof (cases epoch_wise)
  case True
  show ?thesis
  proof (cases time_resolved)
    case False
    with True assms show ?thesis
      by (simp add: compute_sync_epoch_wise shape_epoch_wise_array)
  next
    case tr: True
    with True assms show ?thesis
      by (simp add: compute_sync_def Let_def epoch_wise_branch_supported
            np_nanmean_axis1_epoch_wise_array shape_Arr_map)
  qed
next
  case False
  with assms show ?thesis
    by (simp add: compute_sync_def Let_def concatenated_branch_supported
          shape_concatenated_array)
qed

section \<open>The entries of the per-epoch result\<close>

text \<open>
  Claim C1 says that the entry \<open>(f, e, i, j)\<close> of the per-epoch result is the metric of
  channel \<open>i\<close> of subject 0 and channel \<open>j\<close> of subject 1. In the code the innermost
  list of the comprehension runs over \<open>ch_i\<close>, the channel of subject 0, so the last
  axis is the channel of subject 0 and the axis before it the channel of subject 1.
  With the phase locking value and two channels, of which channel 1 of subject 0 holds
  \<open>\<i>\<close> and every other sample is 1, the entry \<open>(0, 0, 0, 1)\<close> is \<open>exp (- 1)\<close>, the value
  for channel 1 of subject 0 and channel 0 of subject 1, while the metric of channel 0
  of subject 0 and channel 1 of subject 1 is 1.
\<close>

theorem entry_is_not_subject0_row_counterexample:
  "compute_sync plain_collaborators two_channel_signal (Interned ''plv'') True False
     = Inr (Arr [Arr [Arr [Arr [Scalar (Some 1), Scalar (Some (exp (- 1)))],
                           Arr [Scalar (Some 1), Scalar (Some (exp (- 1)))]]]])
   \<and> nd_get (Arr [Arr [Arr [Arr [Scalar (Some 1), Scalar (Some (exp (- 1)))],
                              Arr [Scalar (Some 1), Scalar (Some (exp (- 1)))]]]]) [0, 0, 0, 1]
       = Some (Some (exp (- 1)))
   \<and> pair_value plain_collaborators ''plv'' (slice two_channel_signal 0 0 0 0)
                                             (slice two_channel_signal 1 0 1 0) = Some 1
   \<and> exp (- 1) \<noteq> (1::real)"
  by (simp add: compute_sync_def epoch_wise_branch_def py_is_def two_channel_signal_def
        epoch_wise_array_def slice_def elementwise_def plv_def pair_value_def np_defs
        norm_mult upt_rec numeral_2_eq_2)

text \<open>
  Claim C1, amended: in the per-epoch branch without averaging, for every supported
  metric, frequency \<open>freq\<close>, epoch \<open>epoch\<close> and channels \<open>i\<close>, \<open>j\<close>, the call returns an
  array whose entry at \<open>(freq, epoch, i, j)\<close> is the metric, after the metric's transform
  of the samples, of the sequence of channel \<open>j\<close> of subject 0 and the sequence of channel
  \<open>i\<close> of subject 1 at that frequency and epoch.
\<close>

theorem per_epoch_entry:
  assumes "name \<in> set supported_metrics"
    and "freq < shape3 cs" and "epoch < shape1 cs" and "i < shape2 cs" and "j < shape2 cs"
  shows "\<exists>result. compute_sync ext cs (Interned name) True False = Inr result
           \<and> nd_get result [freq, epoch, i, j]
               = Some (pair_value ext name (slice cs 0 epoch j freq) (slice cs 1 epoch i freq))"
  using assms by (simp add: compute_sync_epoch_wise nd_get_epoch_wise_array)

text \<open>
  Witness of C1, amended: the phase locking value on the two-channel signal, at the entry
  \<open>(0, 0, 0, 1)\<close>.
\<close>

theorem per_epoch_entry_witness:
  "''plv'' \<in> set supported_metrics
   \<and> (0::nat) < shape3 two_channel_signal \<and> (0::nat) < shape1 two_channel_signal
   \<and> (0::nat) < shape2 two_channel_signal \<and> (1::nat) < shape2 two_channel_signal
   \<and> (\<exists>result.
         compute_sync plain_collaborators two_channel_signal (Interned ''plv'') True False
           = Inr result
         \<and> nd_get result [0, 0, 0, 1]
             = Some (pair_value plain_collaborators ''plv''
                       (slice two_channel_signal 0 0 1 0) (slice two_channel_signal 1 0 0 0)))"
  using per_epoch_entry [of "''plv''" 0 two_channel_signal 0 0 1 plain_collaborators]
  by (simp add: supported_metrics_def two_channel_signal_def)

section \<open>The phase locking value and the coherence\<close>

text \<open>
  Claim C2 says that the metric \<^verbatim>\<open>plv\<close> is the mean resultant length of the phase
  difference. \<^verbatim>\<open>_plv\<close> is called with the unit-magnitude complex samples, not with their
  phase angles, and takes \<^verbatim>\<open>np.exp(1j * (X - Y))\<close> of their complex difference. For one
  sample \<open>- 2\<i>\<close> of subject 0 and \<open>3\<i>\<close> of subject 1 the code returns \<open>exp 2\<close>; the mean
  resultant length is 1.
\<close>

theorem plv_is_not_mean_resultant_length:
  "compute_sync ext (two_sample_signal 1 (- 2 * \<i>) (3 * \<i>)) (Interned ''plv'') True False
     = Inr (Arr [Arr [Arr [Arr [Scalar (Some (exp 2))]]]])
   \<and> mean_resultant_length (slice (two_sample_signal 1 (- 2 * \<i>) (3 * \<i>)) 0 0 0 0)
                           (slice (two_sample_signal 1 (- 2 * \<i>) (3 * \<i>)) 1 0 0 0) = Some 1
   \<and> exp 2 \<noteq> (1::real)"
  by (simp add: compute_sync_def epoch_wise_branch_def py_is_def two_sample_signal_def
        epoch_wise_array_def slice_def elementwise_def plv_def mean_resultant_length_def
        np_defs norm_mult)

text \<open>
  Claim C5 says that every value of the metric \<^verbatim>\<open>plv\<close> lies in [0, 1]. With two epochs
  of one sample each, \<open>- \<i>\<close> for subject 0 and \<open>\<i>\<close> for subject 1, the concatenated branch
  returns \<open>exp 2\<close>, which is greater than 1.
\<close>

theorem plv_exceeds_one:
  "compute_sync ext (two_sample_signal 2 (- \<i>) \<i>) (Interned ''plv'') False time_resolved
     = Inr (Arr [Arr [Arr [Scalar (Some (exp 2))]]])
   \<and> \<not> exp 2 \<le> (1::real)"
  by (simp add: compute_sync_def concatenated_branch_def concatenated_with_def
        concatenate_epochs_def py_is_def two_sample_signal_def concatenated_array_def
        slice_def elementwise_def plv_def np_defs norm_mult upt_rec numeral_2_eq_2)

text \<open>
  The other half of claim C5 holds: when astropy's \<^verbatim>\<open>circcorrcoef\<close> keeps its contract
  (a value in [-1, 1]), so does every entry that the metric \<^verbatim>\<open>ccorr\<close> produces per epoch.
\<close>

lemma ccorr_entries_within_contract:
  assumes "\<And>X Y. \<exists>v. circcorrcoef ext X Y = Some v \<and> - 1 \<le> v \<and> v \<le> 1"
    and "freq < shape3 cs" and "epoch < shape1 cs" and "i < shape2 cs" and "j < shape2 cs"
  shows "\<exists>result v. compute_sync ext cs (Interned ''ccorr'') True False = Inr result
           \<and> nd_get result [freq, epoch, i, j] = Some (Some v) \<and> - 1 \<le> v \<and> v \<le> 1"
proof -
  have "''ccorr'' \<in> set supported_metrics"
    by (simp add: supported_metrics_def)
  then have "compute_sync ext cs (Interned ''ccorr'') True False
               = Inr (epoch_wise_array (pair_value ext ''ccorr'') (slice cs)
                        (shape3 cs) (shape1 cs) (shape2 cs))"
    by (rule compute_sync_epoch_wise)
  moreover from assms(1)
  obtain v where "pair_value ext ''ccorr'' (slice cs 0 epoch j freq) (slice cs 1 epoch i freq)
                    = Some v" "- 1 \<le> v" "v \<le> 1"
    unfolding pair_value_simps by blast
  ultimately show ?thesis
    using assms(2-5) by (simp add: nd_get_epoch_wise_array)
qed

text \<open>
  Claim C6 says that the metric \<^verbatim>\<open>coh\<close> is the NaN-skipping mean of
  \<^verbatim>\<open>|A1 A2 exp(i delta)| / sqrt(A1^2 A2^2)\<close> with \<^verbatim>\<open>delta\<close> the phase difference. \<^verbatim>\<open>_coh\<close>
  takes the exponential of \<^verbatim>\<open>1j\<close> times the difference of the unit-magnitude complex
  samples. For one sample \<open>- \<i>\<close> of subject 0 and \<open>\<i>\<close> of subject 1 the code returns
  \<open>exp 2\<close>; the formula gives 1.
\<close>

theorem coh_is_not_mean_instantaneous_coherence:
  "compute_sync ext (two_sample_signal 1 (- \<i>) \<i>) (Interned ''coh'') True False
     = Inr (Arr [Arr [Arr [Arr [Scalar (Some (exp 2))]]]])
   \<and> mean_instantaneous_coherence (slice (two_sample_signal 1 (- \<i>) \<i>) 0 0 0 0)
                                   (slice (two_sample_signal 1 (- \<i>) \<i>) 1 0 0 0) = Some 1
   \<and> exp 2 \<noteq> (1::real)"
  by (simp add: compute_sync_def epoch_wise_branch_def py_is_def two_sample_signal_def
        epoch_wise_array_def slice_def elementwise_def coh_def unit_phase_def
        mean_instantaneous_coherence_def np_defs norm_mult)

section \<open>Unsupported metric names\<close>

text \<open>
  Claim C3 says that a metric string outside the seven names is rejected with a message
  that names it, in both branches and before any metric is computed
  (\<open>compute_sync_unsupported\<close> proves that half), and that no string among the seven is
  rejected. The code compares with \<^verbatim>\<open>is\<close>: a string with the characters \<^verbatim>\<open>plv\<close> that is not
  the interned literal, such as \<^verbatim>\<open>''.join(['p', 'l', 'v'])\<close>, equals \<^verbatim>\<open>'plv'\<close> and fails all
  seven tests, in both branches and whatever the signal.
\<close>

theorem equal_but_not_identical_name_is_rejected:
  "py_eq (Built n ''plv'') (Interned ''plv'')
   \<and> chars (Built n ''plv'') \<in> set supported_metrics
   \<and> compute_sync ext complex_signal (Built n ''plv'') epoch_wise time_resolved
       = Inl (UnsupportedMetric ''Sychrony metric plv not supported.'')"
  by (simp add: compute_sync_def epoch_wise_branch_def concatenated_branch_def py_is_def
        py_eq_def not_supported_def supported_metrics_def Let_def)

section \<open>Averaging over the epochs\<close>

text \<open>
  \<^verbatim>\<open>np.nanmean\<close> of a sequence is the NaN-skipping mean of the specification.
\<close>

lemma sum_list_not_nan:
  "sum_list (not_nan xs) = (\<Sum>x\<leftarrow>xs. case x of Some v \<Rightarrow> v | None \<Rightarrow> 0)"
  by (induction xs) (auto simp: not_nan_def List.map_filter_def split: option.splits)

lemma length_not_nan: "length (not_nan xs) = length (filter (\<lambda>x. x \<noteq> NaN) xs)"
  by (induction xs) (auto simp: not_nan_def List.map_filter_def)

lemma not_nan_empty: "not_nan xs = [] \<longleftrightarrow> list_all (\<lambda>x. x = NaN) xs"
  by (induction xs) (auto simp: not_nan_def List.map_filter_def)

lemma np_nanmean_is_mean_skipping_nan: "np_nanmean xs = mean_skipping_nan xs"
  by (simp add: np_nanmean_def mean_skipping_nan_def Let_def sum_list_not_nan
        length_not_nan not_nan_empty)

lemma entry_epoch_wise_array:
  assumes "freq < n_freq" "epoch < n_epoch" "a < n_ch" "b < n_ch"
  shows "entry (epoch_wise_array m v n_freq n_epoch n_ch) [freq, epoch, a, b]
           = m (v 0 epoch b freq) (v 1 epoch a freq)"
  using assms by (simp add: entry_def nd_get_epoch_wise_array)

lemma map_upt_cong: "(\<And>k. k < n \<Longrightarrow> f k = g k) \<Longrightarrow> map f [0..<n] = map g [0..<n]"
  by simp

text \<open>
  Claim C9 says that, for every input and supported metric, the result with
  \<^verbatim>\<open>epoch_wise=True\<close> and \<^verbatim>\<open>time_resolved=True\<close> is the NaN-skipping mean over the epoch
  axis of the four-dimensional result with \<^verbatim>\<open>time_resolved=False\<close>. For a signal without
  frequencies the call without averaging returns \<^verbatim>\<open>np.array([])\<close>, of shape (0,), and the
  averaged call raises \<^verbatim>\<open>AxisError\<close>: a one-dimensional array has no axis 1. For a signal
  without epochs the result without averaging has shape (2, 0), not four dimensions,
  and the averaged result is the one-dimensional array of two NaN.
\<close>

theorem averaging_with_an_empty_axis_counterexample:
  "compute_sync plain_collaborators (constant_signal 1 1 0 1) (Interned ''plv'') True False
     = Inr (Arr [])
   \<and> compute_sync plain_collaborators (constant_signal 1 1 0 1) (Interned ''plv'') True True
     = Inl AxisError
   \<and> compute_sync plain_collaborators (constant_signal 0 1 2 1) (Interned ''plv'') True False
     = Inr (Arr [Arr [], Arr []])
   \<and> shape (Arr [Arr [], Arr []] :: float64 nd) = [2, 0]
   \<and> compute_sync plain_collaborators (constant_signal 0 1 2 1) (Interned ''plv'') True True
     = Inr (Arr [Scalar NaN, Scalar NaN])"
  by (simp add: compute_sync_def epoch_wise_branch_def py_is_def constant_signal_def
        epoch_wise_array_def elementwise_def np_nanmean_axis1_def np_nanmean_def not_nan_def
        List.map_filter_def upt_0_2)

text \<open>
  Claim C9, amended: for every supported metric and every signal with at least one
  frequency, one epoch and one channel, the call with \<^verbatim>\<open>epoch_wise=True\<close> and
  \<^verbatim>\<open>time_resolved=False\<close> returns an array of shape (n_freq, n_epochs, n_channels,
  n_channels), the call with \<^verbatim>\<open>time_resolved=True\<close> returns an array of shape (n_freq,
  n_channels, n_channels), and the entry \<open>(freq, i, j)\<close> of the second is the NaN-skipping
  mean over the epochs of the entries \<open>(freq, epoch, i, j)\<close> of the first: the values
  that are NaN are left out of the sum and of the count, and the mean is NaN when every
  epoch's value is NaN. For every metric string the outcome of the averaged call is
  \<^verbatim>\<open>np.nanmean(..., axis=1)\<close> of the outcome of the other, errors included.
\<close>

theorem time_resolved_is_nanmean_over_epochs:
  "(\<forall>mode. compute_sync ext cs mode True True
            = and_then (compute_sync ext cs mode True False) np_nanmean_axis1)
   \<and> (name \<in> set supported_metrics \<longrightarrow> freq < shape3 cs \<longrightarrow> 0 < shape1 cs \<longrightarrow>
       i < shape2 cs \<longrightarrow> j < shape2 cs \<longrightarrow>
       (\<exists>r4 r3 v.
          compute_sync ext cs (Interned name) True False = Inr r4
          \<and> shape r4 = [shape3 cs, shape1 cs, shape2 cs, shape2 cs]
          \<and> compute_sync ext cs (Interned name) True True = Inr r3
          \<and> shape r3 = [shape3 cs, shape2 cs, shape2 cs]
          \<and> (\<forall>epoch<shape1 cs. nd_get r4 [freq, epoch, i, j] = Some (v epoch))
          \<and> (\<forall>epoch<shape1 cs.
                v epoch = pair_value ext name (slice cs 0 epoch j freq) (slice cs 1 epoch i freq))
          \<and> nd_get r3 [freq, i, j] = Some (mean_skipping_nan (map v [0..<shape1 cs]))))"
proof (intro conjI allI impI)
  fix mode
  show "compute_sync ext cs mode True True
          = and_then (compute_sync ext cs mode True False) np_nanmean_axis1"
    by (simp add: compute_sync_def and_then_def Let_def split: sum.splits)
next
  assume name: "name \<in> set supported_metrics" and f: "freq < shape3 cs"
    and e: "0 < shape1 cs" and i: "i < shape2 cs" and j: "j < shape2 cs"
  let ?r4 = "epoch_wise_array (pair_value ext name) (slice cs)
               (shape3 cs) (shape1 cs) (shape2 cs)"
  let ?r3 = "tabulate [shape3 cs, shape2 cs, shape2 cs]
               (\<lambda>idx. np_nanmean (map (\<lambda>epoch. entry ?r4 (hd idx # epoch # tl idx))
                                       [0..<shape1 cs]))"
  let ?v = "\<lambda>epoch. pair_value ext name (slice cs 0 epoch j freq) (slice cs 1 epoch i freq)"
  have r4: "compute_sync ext cs (Interned name) True False = Inr ?r4"
    using name by (rule compute_sync_epoch_wise)
  have shape4: "shape ?r4 = [shape3 cs, shape1 cs, shape2 cs, shape2 cs]"
    using f e i by (simp add: shape_epoch_wise_array)
  have "compute_sync ext cs (Interned name) True True = np_nanmean_axis1 ?r4"
    using name by (simp add: compute_sync_def epoch_wise_branch_supported Let_def)
  also have "\<dots> = Inr ?r3"
    using f e i by (intro np_nanmean_axis1_epoch_wise_array) auto
  finally have r3: "compute_sync ext cs (Interned name) True True = Inr ?r3" .
  have shape3: "shape ?r3 = [shape3 cs, shape2 cs, shape2 cs]"
    using f i by (simp add: shape_Arr_map)
  have entries4: "\<forall>epoch<shape1 cs. nd_get ?r4 [freq, epoch, i, j] = Some (?v epoch)"
    using f i j by (simp add: nd_get_epoch_wise_array)
  have same: "map (\<lambda>epoch. entry ?r4 [freq, epoch, i, j]) [0..<shape1 cs]
                = map ?v [0..<shape1 cs]"
    using f i j by (intro map_upt_cong) (simp add: entry_epoch_wise_array)
  have "nd_get ?r3 [freq, i, j]
          = Some (np_nanmean (map (\<lambda>epoch. entry ?r4 [freq, epoch, i, j]) [0..<shape1 cs]))"
    using f i j by simp
  then have entries3:
    "nd_get ?r3 [freq, i, j] = Some (mean_skipping_nan (map ?v [0..<shape1 cs]))"
    by (simp only: same np_nanmean_is_mean_skipping_nan)
  from r4 shape4 r3 shape3 entries4 entries3
  show "\<exists>r4 r3 v.
          compute_sync ext cs (Interned name) True False = Inr r4
          \<and> shape r4 = [shape3 cs, shape1 cs, shape2 cs, shape2 cs]
          \<and> compute_sync ext cs (Interned name) True True = Inr r3
          \<and> shape r3 = [shape3 cs, shape2 cs, shape2 cs]
          \<and> (\<forall>epoch<shape1 cs. nd_get r4 [freq, epoch, i, j] = Some (v epoch))
          \<and> (\<forall>epoch<shape1 cs.
                v epoch = pair_value ext name (slice cs 0 epoch j freq) (slice cs 1 epoch i freq))
          \<and> nd_get r3 [freq, i, j] = Some (mean_skipping_nan (map v [0..<shape1 cs]))"
    by (intro exI [of _ ?r4] exI [of _ ?r3] exI [of _ ?v]) simp
qed

text \<open>
  Witness of C9, amended: the phase locking value on three epochs of one channel whose
  values are 1, \<open>exp (- 1)\<close> and NaN (the sample 0 has no phase); the averaged entry is
  \<open>(1 + exp (- 1)) / 2\<close>, the mean of the two values that are not NaN.
\<close>

theorem time_resolved_is_nanmean_over_epochs_witness:
  "''plv'' \<in> set supported_metrics
   \<and> (0::nat) < shape3 three_epoch_signal \<and> (0::nat) < shape1 three_epoch_signal
   \<and> (0::nat) < shape2 three_epoch_signal
   \<and> (\<exists>r4 r3.
         compute_sync plain_collaborators three_epoch_signal (Interned ''plv'') True False
           = Inr r4
         \<and> shape r4 = [1, 3, 1, 1]
         \<and> compute_sync plain_collaborators three_epoch_signal (Interned ''plv'') True True
             = Inr r3
         \<and> shape r3 = [1, 1, 1]
         \<and> nd_get r4 [0, 0, 0, 0] = Some (Some 1)
         \<and> nd_get r4 [0, 1, 0, 0] = Some (Some (exp (- 1)))
         \<and> nd_get r4 [0, 2, 0, 0] = Some NaN
         \<and> nd_get r3 [0, 0, 0] = Some (Some ((1 + exp (- 1)) / 2)))"
proof -
  have name: "''plv'' \<in> set supported_metrics"
    by (simp add: supported_metrics_def)
  have sizes: "(0::nat) < shape3 three_epoch_signal" "(0::nat) < shape1 three_epoch_signal"
    "(0::nat) < shape2 three_epoch_signal"
    by (simp_all add: three_epoch_signal_def)
  have dims: "shape1 three_epoch_signal = 3" "shape2 three_epoch_signal = 1"
    "shape3 three_epoch_signal = 1"
    by (simp_all add: three_epoch_signal_def)
  have vals:
    "pair_value plain_collaborators ''plv'' (slice three_epoch_signal 0 0 0 0)
       (slice three_epoch_signal 1 0 0 0) = Some 1"
    "pair_value plain_collaborators ''plv'' (slice three_epoch_signal 0 1 0 0)
       (slice three_epoch_signal 1 1 0 0) = Some (exp (- 1))"
    "pair_value plain_collaborators ''plv'' (slice three_epoch_signal 0 2 0 0)
       (slice three_epoch_signal 1 2 0 0) = NaN"
    by (simp_all add: pair_value_def slice_def three_epoch_signal_def plv_def np_defs norm_mult)
  from time_resolved_is_nanmean_over_epochs
         [of plain_collaborators three_epoch_signal "''plv''" 0 0 0, THEN conjunct2]
       name sizes(1,2,3) sizes(3)
  obtain r4 r3 v where
    r4: "compute_sync plain_collaborators three_epoch_signal (Interned ''plv'') True False
           = Inr r4"
      "shape r4 = [shape3 three_epoch_signal, shape1 three_epoch_signal,
                   shape2 three_epoch_signal, shape2 three_epoch_signal]"
    and r3: "compute_sync plain_collaborators three_epoch_signal (Interned ''plv'') True True
               = Inr r3"
      "shape r3 = [shape3 three_epoch_signal, shape2 three_epoch_signal,
                   shape2 three_epoch_signal]"
    and e4: "\<forall>epoch<shape1 three_epoch_signal. nd_get r4 [0, epoch, 0, 0] = Some (v epoch)"
    and v: "\<forall>epoch<shape1 three_epoch_signal.
              v epoch = pair_value plain_collaborators ''plv''
                          (slice three_epoch_signal 0 epoch 0 0)
                          (slice three_epoch_signal 1 epoch 0 0)"
    and e3: "nd_get r3 [0, 0, 0]
               = Some (mean_skipping_nan (map v [0..<shape1 three_epoch_signal]))"
    by blast
  from v vals have v0: "v 0 = Some 1" and v1: "v 1 = Some (exp (- 1))" and v2: "v 2 = NaN"
    by (simp_all add: dims)
  from e4 v0 v1 v2 have "nd_get r4 [0, 0, 0, 0] = Some (Some 1)"
    "nd_get r4 [0, 1, 0, 0] = Some (Some (exp (- 1)))" "nd_get r4 [0, 2, 0, 0] = Some NaN"
    by (simp_all add: dims)
  moreover from e3 v0 v1 v2 have "nd_get r3 [0, 0, 0] = Some (Some ((1 + exp (- 1)) / 2))"
    by (simp add: dims upt_0_3 mean_skipping_nan_def)
  moreover note r4 r3 name sizes
  ultimately show ?thesis
    by (simp add: dims)
qed

section \<open>The concatenated branch\<close>

text \<open>
  Claim C8 says that without \<^verbatim>\<open>epoch_wise\<close> the result is the one the specification
  describes (concatenate the epochs first, transform, evaluate the metric for each
  frequency and pair of channels, laid out as (frequency, channel_i, channel_j)), that it
  is always three-dimensional, and that \<^verbatim>\<open>time_resolved\<close> does not change it.
  \<^item> The code lays the channels out the other way round: the innermost list of its
    comprehension runs over \<^verbatim>\<open>ch_i\<close>, the channel of subject 0. On the two-channel signal
    the phase locking value gives the rows (1, \<open>exp (- 1)\<close>) and (1, \<open>exp (- 1)\<close>), where
    the specification's layout has the rows (1, 1) and (\<open>exp (- 1)\<close>, \<open>exp (- 1)\<close>).
  \<^item> A signal without channels gives the array \<^verbatim>\<open>np.array([[]])\<close> of shape (1, 0), which
    has two dimensions.
  \<^item> A signal without epochs gives no array: \<^verbatim>\<open>np.concatenate\<close> raises \<^verbatim>\<open>ValueError\<close>.
\<close>

theorem concatenated_result_counterexample:
  "compute_sync plain_collaborators two_channel_signal (Interned ''plv'') False False
     = Inr (Arr [Arr [Arr [Scalar (Some 1), Scalar (Some (exp (- 1)))],
                      Arr [Scalar (Some 1), Scalar (Some (exp (- 1)))]]])
   \<and> sync_of_long_sequences plain_collaborators two_channel_signal ''plv''
     = Arr [Arr [Arr [Scalar (Some 1), Scalar (Some 1)],
                 Arr [Scalar (Some (exp (- 1))), Scalar (Some (exp (- 1)))]]]
   \<and> exp (- 1) \<noteq> (1::real)
   \<and> compute_sync plain_collaborators (constant_signal 1 0 1 1) (Interned ''plv'') False False
     = Inr (Arr [Arr []])
   \<and> shape (Arr [Arr []] :: float64 nd) = [1, 0]
   \<and> compute_sync plain_collaborators (constant_signal 0 1 1 1) (Interned ''plv'') False False
     = Inl ValueError"
  by (simp add: compute_sync_def concatenated_branch_def concatenated_with_def
        concatenate_epochs_def py_is_def constant_signal_def two_channel_signal_def
        concatenated_array_def sync_of_long_sequences_def long_sequence_def pair_value_def
        slice_def elementwise_def plv_def np_defs norm_mult upt_0_2)

text \<open>
  Claim C8, amended: without \<^verbatim>\<open>epoch_wise\<close> the outcome is the same whether
  \<^verbatim>\<open>time_resolved\<close> is true or false. For a supported metric and a signal with at least
  one epoch the call returns the array that the specification describes with its two
  channel axes exchanged: the entry \<open>(freq, i, j)\<close> of the result is the entry
  \<open>(freq, j, i)\<close> of the specification's array, that is the metric, after the metric's
  transform, of the concatenated epochs of channel \<open>j\<close> of subject 0 and of channel \<open>i\<close>
  of subject 1. The result is three-dimensional, of shape (frequencies, channels,
  channels), when the signal has at least one frequency and one channel.
\<close>

theorem concatenated_branch_refines_specification:
  "(\<forall>mode. compute_sync ext cs mode False True = compute_sync ext cs mode False False)
   \<and> (name \<in> set supported_metrics \<longrightarrow> 0 < shape1 cs \<longrightarrow>
        (\<exists>result.
           compute_sync ext cs (Interned name) False time_resolved = Inr result
           \<and> (\<forall>freq i j. freq < shape3 cs \<longrightarrow> i < shape2 cs \<longrightarrow> j < shape2 cs \<longrightarrow>
                  nd_get result [freq, i, j]
                    = nd_get (sync_of_long_sequences ext cs name) [freq, j, i]
                  \<and> nd_get result [freq, i, j]
                      = Some (pair_value ext name (long_sequence cs 0 j freq)
                                                  (long_sequence cs 1 i freq)))
           \<and> (0 < shape3 cs \<longrightarrow> 0 < shape2 cs \<longrightarrow>
                  shape result = [shape3 cs, shape2 cs, shape2 cs])))"
proof (intro conjI allI impI)
  fix mode
  show "compute_sync ext cs mode False True = compute_sync ext cs mode False False"
    by (simp add: compute_sync_def)
next
  assume name: "name \<in> set supported_metrics" and epochs: "0 < shape1 cs"
  let ?result = "concatenated_array (pair_value ext name) (long_sequence cs)
                   (shape3 cs) (shape2 cs)"
  have result: "compute_sync ext cs (Interned name) False time_resolved = Inr ?result"
    using name epochs by (simp add: compute_sync_def Let_def concatenated_branch_supported)
  have entries: "\<forall>freq i j. freq < shape3 cs \<longrightarrow> i < shape2 cs \<longrightarrow> j < shape2 cs \<longrightarrow>
                  nd_get ?result [freq, i, j]
                    = nd_get (sync_of_long_sequences ext cs name) [freq, j, i]
                  \<and> nd_get ?result [freq, i, j]
                      = Some (pair_value ext name (long_sequence cs 0 j freq)
                                                  (long_sequence cs 1 i freq))"
    by (simp add: nd_get_concatenated_array nd_get_sync_of_long_sequences)
  have three: "0 < shape3 cs \<longrightarrow> 0 < shape2 cs \<longrightarrow>
                  shape ?result = [shape3 cs, shape2 cs, shape2 cs]"
    by (simp add: shape_concatenated_array)
  from result entries three
  show "\<exists>result.
           compute_sync ext cs (Interned name) False time_resolved = Inr result
           \<and> (\<forall>freq i j. freq < shape3 cs \<longrightarrow> i < shape2 cs \<longrightarrow> j < shape2 cs \<longrightarrow>
                  nd_get result [freq, i, j]
                    = nd_get (sync_of_long_sequences ext cs name) [freq, j, i]
                  \<and> nd_get result [freq, i, j]
                      = Some (pair_value ext name (long_sequence cs 0 j freq)
                                                  (long_sequence cs 1 i freq)))
           \<and> (0 < shape3 cs \<longrightarrow> 0 < shape2 cs \<longrightarrow>
                  shape result = [shape3 cs, shape2 cs, shape2 cs])"
    by (intro exI [of _ ?result] conjI)
qed

text \<open>
  Witness of C8, amended: the phase locking value on two epochs of two channels, where
  channel 1 of subject 0 holds \<open>2\<i>\<close> and then \<open>- 3\<i>\<close>. The entry \<open>(0, 0, 1)\<close> is the metric
  of the unit samples \<open>\<i>\<close>, \<open>- \<i>\<close> of channel 1 of subject 0, in the order of the epochs,
  and of the samples of channel 0 of subject 1.
\<close>

theorem concatenated_branch_refines_specification_witness:
  "compute_sync plain_collaborators two_epoch_signal (Interned ''plv'') False True
     = compute_sync plain_collaborators two_epoch_signal (Interned ''plv'') False False
   \<and> ''plv'' \<in> set supported_metrics
   \<and> (0::nat) < shape1 two_epoch_signal
   \<and> (\<exists>result.
         compute_sync plain_collaborators two_epoch_signal (Interned ''plv'') False True
           = Inr result
         \<and> nd_get result [0, 0, 1]
             = nd_get (sync_of_long_sequences plain_collaborators two_epoch_signal ''plv'')
                 [0, 1, 0]
         \<and> nd_get result [0, 0, 1] = Some (plv [Some \<i>, Some (- \<i>)] [Some 1, Some 1])
         \<and> nd_get result [0, 1, 0] = Some (plv [Some 1, Some 1] [Some 1, Some 1])
         \<and> shape result = [1, 2, 2])"
proof -
  note inst = concatenated_branch_refines_specification
                [of plain_collaborators two_epoch_signal "''plv''" True]
  have name: "''plv'' \<in> set supported_metrics"
    by (simp add: supported_metrics_def)
  have dims: "shape1 two_epoch_signal = 2" "shape2 two_epoch_signal = 2"
    "shape3 two_epoch_signal = 1"
    by (simp_all add: two_epoch_signal_def)
  have epochs: "(0::nat) < shape1 two_epoch_signal"
    by (simp add: dims)
  have long:
    "pair_value plain_collaborators ''plv'' (long_sequence two_epoch_signal 0 1 0)
       (long_sequence two_epoch_signal 1 0 0)
       = plv [Some \<i>, Some (- \<i>)] [Some 1, Some 1]"
    "pair_value plain_collaborators ''plv'' (long_sequence two_epoch_signal 0 0 0)
       (long_sequence two_epoch_signal 1 1 0)
       = plv [Some 1, Some 1] [Some 1, Some 1]"
    by (simp_all add: pair_value_simps long_sequence_def slice_def two_epoch_signal_def
          upt_0_2 np_div_def np_abs_def as_complex_def norm_mult)
  from inst have "\<forall>mode.
      compute_sync plain_collaborators two_epoch_signal mode False True
        = compute_sync plain_collaborators two_epoch_signal mode False False"
    by (rule conjunct1)
  then have flag:
    "compute_sync plain_collaborators two_epoch_signal (Interned ''plv'') False True
       = compute_sync plain_collaborators two_epoch_signal (Interned ''plv'') False False"
    by (rule spec)
  from inst [THEN conjunct2, THEN mp, THEN mp, OF name epochs]
  obtain result where
    result: "compute_sync plain_collaborators two_epoch_signal (Interned ''plv'') False True
               = Inr result"
    and entries: "\<forall>freq i j. freq < shape3 two_epoch_signal \<longrightarrow> i < shape2 two_epoch_signal
                    \<longrightarrow> j < shape2 two_epoch_signal \<longrightarrow>
                  nd_get result [freq, i, j]
                    = nd_get (sync_of_long_sequences plain_collaborators two_epoch_signal ''plv'')
                        [freq, j, i]
                  \<and> nd_get result [freq, i, j]
                      = Some (pair_value plain_collaborators ''plv''
                                (long_sequence two_epoch_signal 0 j freq)
                                (long_sequence two_epoch_signal 1 i freq))"
    and three: "0 < shape3 two_epoch_signal \<longrightarrow> 0 < shape2 two_epoch_signal \<longrightarrow>
                  shape result = [shape3 two_epoch_signal, shape2 two_epoch_signal,
                                  shape2 two_epoch_signal]"
    by (elim exE conjE) (erule (2) that)
  have first: "nd_get result [0, 0, 1]
             = nd_get (sync_of_long_sequences plain_collaborators two_epoch_signal ''plv'')
                 [0, 1, 0]
           \<and> nd_get result [0, 0, 1]
               = Some (pair_value plain_collaborators ''plv''
                         (long_sequence two_epoch_signal 0 1 0)
                         (long_sequence two_epoch_signal 1 0 0))"
    by (rule entries [rule_format]) (simp_all add: dims)
  have second: "nd_get result [0, 1, 0]
             = nd_get (sync_of_long_sequences plain_collaborators two_epoch_signal ''plv'')
                 [0, 0, 1]
           \<and> nd_get result [0, 1, 0]
               = Some (pair_value plain_collaborators ''plv''
                         (long_sequence two_epoch_signal 0 0 0)
                         (long_sequence two_epoch_signal 1 1 0))"
    by (rule entries [rule_format]) (simp_all add: dims)
  note a = first [THEN conjunct1]
  have b: "nd_get result [0, 0, 1] = Some (plv [Some \<i>, Some (- \<i>)] [Some 1, Some 1])"
    by (simp only: first [THEN conjunct2] long(1))
  have c: "nd_get result [0, 1, 0] = Some (plv [Some 1, Some 1] [Some 1, Some 1])"
    by (simp only: second [THEN conjunct2] long(2))
  from three have d: "shape result = [1, 2, 2]"
    by (simp add: dims)
  from flag name epochs result a b c d show ?thesis
    by (intro conjI exI [of _ result])
qed

section \<open>The assertion on the epoch counts\<close>

lemma from_collaborator_not_mismatch: "from_collaborator r \<noteq> Inl InputMismatch"
  by (cases r) (simp_all add: from_collaborator_def)

lemma stack3_not_mismatch: "stack3 a b \<noteq> Inl InputMismatch"
  by (simp add: stack3_def)

lemma stack4_not_mismatch: "stack4 a b \<noteq> Inl InputMismatch"
  by (simp add: stack4_def)

lemma compute_single_freq_not_mismatch:
  "compute_single_freq ext data freq_range \<noteq> Inl InputMismatch"
  by (auto simp: compute_single_freq_def Let_def from_collaborator_not_mismatch
        stack4_not_mismatch split: list.splits dest!: and_then_Inl)

lemma band_signal_not_mismatch:
  "band_signal ext data n_samp freq_band \<noteq> Inl InputMismatch"
  by (auto simp: band_signal_def from_collaborator_not_mismatch
        stack3_not_mismatch split: list.splits dest!: and_then_Inl)

lemma band_signals_not_mismatch:
  "band_signals ext data n_samp bands \<noteq> Inl InputMismatch"
  by (induction bands) (auto dest!: and_then_Inl simp: band_signal_not_mismatch)

lemma moveaxis_bands_not_mismatch: "moveaxis_bands hs \<noteq> Inl InputMismatch"
  by (simp add: moveaxis_bands_def split: list.splits)

lemma compute_freq_bands_mismatch:
  "compute_freq_bands ext data freq_bands = Inl InputMismatch
     \<longleftrightarrow> len0 (fst data) \<noteq> len0 (snd data)"
  by (auto simp: compute_freq_bands_def Let_def stack3_not_mismatch band_signals_not_mismatch
        moveaxis_bands_not_mismatch dest!: and_then_Inl split: if_splits)

lemma compute_sync_not_mismatch:
  "compute_sync ext cs mode epoch_wise time_resolved \<noteq> Inl InputMismatch"
  using compute_sync_error [of ext cs mode epoch_wise time_resolved InputMismatch]
  by (auto simp: not_supported_def)

text \<open>
  Claim C7: when the epoch counts of the two streams disagree, \<^verbatim>\<open>simple_corr\<close> and
  \<^verbatim>\<open>compute_freq_bands\<close> fail with \<open>InputMismatch\<close>, whatever the collaborators \<open>ext\<close>
  would return or raise, so before any decomposition or metric; when the counts agree,
  neither fails with \<open>InputMismatch\<close>.
\<close>

theorem epoch_counts_are_checked_first:
  "(len0 (fst data) \<noteq> len0 (snd data) \<longrightarrow>
      simple_corr ext data frequencies mode epoch_wise time_resolved = Inl InputMismatch
      \<and> compute_freq_bands ext data freq_bands = Inl InputMismatch)
   \<and> (len0 (fst data) = len0 (snd data) \<longrightarrow>
      simple_corr ext data frequencies mode epoch_wise time_resolved \<noteq> Inl InputMismatch
      \<and> compute_freq_bands ext data freq_bands \<noteq> Inl InputMismatch)"
proof (intro conjI impI)
  assume eq: "len0 (fst data) = len0 (snd data)"
  show "simple_corr ext data frequencies mode epoch_wise time_resolved \<noteq> Inl InputMismatch"
  proof
    assume a: "simple_corr ext data frequencies mode epoch_wise time_resolved
                 = Inl InputMismatch"
    show False
    proof (cases frequencies)
      case (PyList freq_range)
      with a eq show False
        by (auto simp: simple_corr_def compute_single_freq_not_mismatch
              compute_sync_not_mismatch split: option.splits dest!: and_then_Inl)
    next
      case (PyDict bands)
      with a eq show False
        by (auto simp: simple_corr_def compute_freq_bands_mismatch
              compute_sync_not_mismatch split: option.splits dest!: and_then_Inl)
    next
      case PyOther
      with a eq show False
        by (simp add: simple_corr_def)
    qed
  qed
qed (simp_all add: simple_corr_def compute_freq_bands_mismatch)

text \<open>
  Witness of C7: streams of 1 and 2 epochs, and two streams of 1 epoch, with the range
  [8, 10), the bands alpha and beta and the metric \<^verbatim>\<open>envelope\<close>.
\<close>

theorem epoch_counts_are_checked_first_witness:
  "len0 (fst (recording 1 2 3, recording 2 2 3)) \<noteq> len0 (snd (recording 1 2 3, recording 2 2 3))
   \<and> simple_corr plain_collaborators (recording 1 2 3, recording 2 2 3) (PyList [8, 10])
        (Interned ''envelope'') True True = Inl InputMismatch
   \<and> compute_freq_bands plain_collaborators (recording 1 2 3, recording 2 2 3)
        [(''alpha'', [8, 12]), (''beta'', [12, 20])] = Inl InputMismatch
   \<and> len0 (fst (recording 1 2 3, recording 1 2 3)) = len0 (snd (recording 1 2 3, recording 1 2 3))
   \<and> simple_corr plain_collaborators (recording 1 2 3, recording 1 2 3) (PyList [8, 10])
        (Interned ''envelope'') True True \<noteq> Inl InputMismatch
   \<and> compute_freq_bands plain_collaborators (recording 1 2 3, recording 1 2 3)
        [(''alpha'', [8, 12]), (''beta'', [12, 20])] \<noteq> Inl InputMismatch"
proof -
  have differ: "len0 (fst (recording 1 2 3, recording 2 2 3))
                  \<noteq> len0 (snd (recording 1 2 3, recording 2 2 3))"
    by (simp add: recording_def)
  have agree: "len0 (fst (recording 1 2 3, recording 1 2 3))
                 = len0 (snd (recording 1 2 3, recording 1 2 3))"
    by simp
  note first = epoch_counts_are_checked_first
                 [of "(recording 1 2 3, recording 2 2 3)" plain_collaborators "PyList [8, 10]"
                     "Interned ''envelope''" True True
                     "[(''alpha'', [8, 12]), (''beta'', [12, 20])]", THEN conjunct1, THEN mp,
                  OF differ]
  note second = epoch_counts_are_checked_first
                  [of "(recording 1 2 3, recording 1 2 3)" plain_collaborators "PyList [8, 10]"
                      "Interned ''envelope''" True True
                      "[(''alpha'', [8, 12]), (''beta'', [12, 20])]", THEN conjunct2, THEN mp,
                   OF agree]
  from differ first agree second show ?thesis
    by (intro conjI) (erule conjunct1 conjunct2 | assumption)+
qed

section \<open>A frequency specification that is neither a list nor a dict\<close>

text \<open>
  Claim C10 says that every call of \<^verbatim>\<open>simple_corr\<close> whose \<^verbatim>\<open>frequencies\<close> is neither a list
  nor a dict fails with the error of an unbound variable and not with one of the
  documented conditions. The assertion on the epoch counts comes first: with streams of
  1 and 2 epochs such a call fails with \<open>InputMismatch\<close>.
\<close>

theorem unbound_values_after_assertion_counterexample:
  "simple_corr plain_collaborators (recording 1 2 3, recording 2 2 3) PyOther
     (Interned ''plv'') True True = Inl InputMismatch"
  by (simp add: simple_corr_def recording_def)

text \<open>
  Claim C10, amended: every call of \<^verbatim>\<open>simple_corr\<close> with streams of equal epoch counts
  whose \<^verbatim>\<open>frequencies\<close> is neither a list nor a dict fails with \<^verbatim>\<open>UnboundLocalError\<close> for
  the variable \<^verbatim>\<open>values\<close>, whatever the metric and the flags.
\<close>

theorem other_frequencies_leave_values_unbound:
  assumes "len0 (fst data) = len0 (snd data)"
  shows "simple_corr ext data PyOther mode epoch_wise time_resolved
           = Inl (UnboundLocalError ''values'')"
  using assms by (simp add: simple_corr_def)

text \<open>Witness of C10, amended: two streams of 1 epoch.\<close>

theorem other_frequencies_leave_values_unbound_witness:
  "len0 (fst (recording 1 2 3, recording 1 2 3)) = len0 (snd (recording 1 2 3, recording 1 2 3))
   \<and> simple_corr plain_collaborators (recording 1 2 3, recording 1 2 3) PyOther
        (Interned ''plv'') True True = Inl (UnboundLocalError ''values'')"
  using other_frequencies_leave_values_unbound
          [of "(recording 1 2 3, recording 1 2 3)" plain_collaborators "Interned ''plv''"
              True True]
  by simp

section \<open>The shape law\<close>

lemma length_np_arange: "length (np_arange f0 f1) = nat (f1 - f0)"
  by (simp add: np_arange_def)

lemma compute_single_freq_ok:
  assumes contract: "shape_contract ext" and same: "dims3 (fst data) = dims3 (snd data)"
  shows "\<exists>cs. compute_single_freq ext data (f0 # f1 # rest) = Inr cs
           \<and> shape1 cs = len0 (fst data) \<and> shape2 cs = len1 (fst data)
           \<and> shape3 cs = nat (f1 - f0) \<and> shape4 cs = len2 (fst data)"
proof -
  let ?call = "\<lambda>d. tfr_array_multitaper ext d (len2 (fst data)) (np_arange f0 f1)
                      4 False True 1 ''complex''"
  from contract obtain a0 where a0: "?call (fst data) = Inr a0"
    "dims4 a0 = (len0 (fst data), len1 (fst data), length (np_arange f0 f1), len2 (fst data))"
    unfolding shape_contract_def by blast
  from contract obtain a1 where a1: "?call (snd data) = Inr a1"
    "dims4 a1 = (len0 (snd data), len1 (snd data), length (np_arange f0 f1), len2 (snd data))"
    unfolding shape_contract_def by blast
  from same a0(2) a1(2) have "dims4 a0 = dims4 a1"
    by (simp add: dims3_def)
  with a0 a1 show ?thesis
    by (simp add: compute_single_freq_def Let_def stack4_def dims4_def length_np_arange)
qed

lemma band_signal_ok:
  assumes contract: "shape_contract ext" and same: "dims3 (fst data) = dims3 (snd data)"
    and two: "2 \<le> length freq_band"
  shows "\<exists>hilb. band_signal ext data n_samp freq_band = Inr hilb
           \<and> dims4 hilb = (2, len0 (fst data), len1 (fst data), len2 (fst data))"
proof -
  from two obtain lo hi rest where fb: "freq_band = lo # hi # rest"
    by (cases freq_band; cases "tl freq_band") auto
  from contract obtain a0 where a0: "filter_data ext (fst data) n_samp lo hi = Inr a0"
    "dims3 a0 = dims3 (fst data)"
    unfolding shape_contract_def by blast
  from contract obtain a1 where a1: "filter_data ext (snd data) n_samp lo hi = Inr a1"
    "dims3 a1 = dims3 (snd data)"
    unfolding shape_contract_def by blast
  let ?filtered = "\<lparr>dim0 = 2, dim1 = len0 a0, dim2 = len1 a0, dim3 = len2 a0,
                    at4 = (\<lambda>n. if n = 0 then at3 a0 else at3 a1)\<rparr>"
  from same a0(2) a1(2) have st: "stack3 a0 a1 = Inr ?filtered"
    by (simp add: stack3_def)
  from contract obtain h where h: "hilbert ext ?filtered = Inr h" "dims4 h = dims4 ?filtered"
    unfolding shape_contract_def by blast
  from a0(2) h(2) have "dims4 h = (2, len0 (fst data), len1 (fst data), len2 (fst data))"
    by (simp add: dims4_def dims3_def)
  with a0 a1 st h show ?thesis
    by (simp add: band_signal_def fb)
qed

lemma band_signals_ok:
  assumes contract: "shape_contract ext" and same: "dims3 (fst data) = dims3 (snd data)"
    and two: "list_all (\<lambda>freq_band. 2 \<le> length freq_band) bands"
  shows "\<exists>hs. band_signals ext data n_samp bands = Inr hs \<and> length hs = length bands
           \<and> list_all (\<lambda>h. dims4 h = (2, len0 (fst data), len1 (fst data), len2 (fst data))) hs
           \<and> (\<forall>b<length bands. band_signal ext data n_samp (bands ! b) = Inr (hs ! b))"
  using two
proof (induction bands)
  case Nil
  then show ?case by simp
next
  case (Cons freq_band bands)
  then have "2 \<le> length freq_band"
    and rest: "list_all (\<lambda>freq_band. 2 \<le> length freq_band) bands"
    by simp_all
  from band_signal_ok [OF contract same this(1), of n_samp]
  obtain hilb where hilb: "band_signal ext data n_samp freq_band = Inr hilb"
    "dims4 hilb = (2, len0 (fst data), len1 (fst data), len2 (fst data))"
    by blast
  from Cons.IH [OF rest]
  obtain hs where hs: "band_signals ext data n_samp bands = Inr hs" "length hs = length bands"
    "list_all (\<lambda>h. dims4 h = (2, len0 (fst data), len1 (fst data), len2 (fst data))) hs"
    "\<forall>b<length bands. band_signal ext data n_samp (bands ! b) = Inr (hs ! b)"
    by blast
  have "\<forall>b<length (freq_band # bands).
          band_signal ext data n_samp ((freq_band # bands) ! b) = Inr ((hilb # hs) ! b)"
    using hilb(1) hs(4) by (auto simp: nth_Cons split: nat.splits)
  with hilb hs show ?case
    by simp
qed

lemma compute_freq_bands_ok:
  assumes contract: "shape_contract ext" and same: "dims3 (fst data) = dims3 (snd data)"
    and nonempty: "freq_bands \<noteq> []"
    and two: "list_all (\<lambda>band. 2 \<le> length (snd band)) freq_bands"
  shows "\<exists>cs. compute_freq_bands ext data freq_bands = Inr cs
           \<and> shape1 cs = len0 (fst data) \<and> shape2 cs = len1 (fst data)
           \<and> shape3 cs = length freq_bands \<and> shape4 cs = len2 (fst data)
           \<and> (\<forall>b<length freq_bands.
                 \<exists>hilb. band_signal ext data (len2 (fst data)) (snd (freq_bands ! b)) = Inr hilb
                      \<and> (\<forall>n epoch ch t. at5 cs n epoch ch b t = at4 hilb n epoch ch t))"
proof -
  from two have "list_all (\<lambda>freq_band. 2 \<le> length freq_band) (map snd freq_bands)"
    by (simp add: list_all_iff)
  from band_signals_ok [OF contract same this, of "len2 (fst data)"]
  obtain hs where hs: "band_signals ext data (len2 (fst data)) (map snd freq_bands) = Inr hs"
    "length hs = length freq_bands"
    "list_all (\<lambda>h. dims4 h = (2, len0 (fst data), len1 (fst data), len2 (fst data))) hs"
    "\<forall>b<length freq_bands.
       band_signal ext data (len2 (fst data)) (map snd freq_bands ! b) = Inr (hs ! b)"
    by auto
  from nonempty hs(2) obtain h rest where hrest: "hs = h # rest"
    by (cases hs) auto
  with hs(3) have dims: "dims4 h = (2, len0 (fst data), len1 (fst data), len2 (fst data))"
    and all: "list_all (\<lambda>x. dims4 x = dims4 h) rest"
    by (simp_all add: list_all_iff)
  let ?cs = "\<lparr>shape1 = dim1 h, shape2 = dim2 h, shape3 = length hs, shape4 = dim3 h,
               at5 = (\<lambda>n epoch ch band t. at4 (hs ! band) n epoch ch t)\<rparr>"
  have mv: "moveaxis_bands hs = Inr ((dim0 h, dim1 h, dim2 h, length hs, dim3 h), ?cs)"
    using all by (simp add: moveaxis_bands_def hrest)
  have st: "\<exists>v. stack3 (fst data) (snd data) = Inr v"
    using same by (simp add: stack3_def)
  have "compute_freq_bands ext data freq_bands = Inr ?cs"
    using st hs(1,2) mv dims same
    by (auto simp: compute_freq_bands_def Let_def dims4_def dims3_def)
  moreover have "\<forall>b<length freq_bands.
      \<exists>hilb. band_signal ext data (len2 (fst data)) (snd (freq_bands ! b)) = Inr hilb
           \<and> (\<forall>n epoch ch t. at5 ?cs n epoch ch b t = at4 hilb n epoch ch t)"
    using hs(4) by simp
  ultimately show ?thesis
    using dims hs(2) by (simp add: dims4_def)
qed

lemma plain_contract: "shape_contract plain_collaborators"
  by (simp add: shape_contract_def plain_collaborators_def dims4_def dims3_def)

text \<open>
  Claim C4 gives the length of the frequency axis (\<open>f1 - f0\<close> for a range, the number of
  bands in iteration order for a dict) and the shape of the result, for every input.
  Numpy gives an array built from nested empty lists a shorter shape, and a dict without
  bands no array at all:
  \<^item> a signal without epochs, per epoch and not averaged: \<^verbatim>\<open>np.array([[], []])\<close> of shape
    (2, 0), not (2, 0, 2, 2);
  \<^item> streams without channels through \<^verbatim>\<open>simple_corr\<close>, per epoch and averaged: shape (2, 0),
    not (2, 0, 0);
  \<^item> no band: \<^verbatim>\<open>np.moveaxis\<close> raises \<^verbatim>\<open>AxisError\<close> on the one-dimensional empty array.
\<close>

theorem shape_law_with_an_empty_axis_counterexample:
  "compute_sync plain_collaborators (constant_signal 0 2 2 3) (Interned ''plv'') True False
     = Inr (Arr [Arr [], Arr []])
   \<and> shape (Arr [Arr [], Arr []] :: float64 nd) = [2, 0]
   \<and> simple_corr plain_collaborators (recording 1 0 3, recording 1 0 3) (PyList [8, 10])
       (Interned ''plv'') True True = Inr (Arr [Arr [], Arr []])
   \<and> compute_freq_bands plain_collaborators dyad [] = Inl AxisError"
  by (simp add: simple_corr_def compute_single_freq_def compute_freq_bands_def recording_def
        dyad_def constant_signal_def plain_collaborators_def from_collaborator_def stack4_def
        stack3_def dims4_def dims3_def moveaxis_bands_def compute_sync_def
        epoch_wise_branch_def py_is_def epoch_wise_array_def np_arange_def
        np_nanmean_axis1_def upto.simps upt_rec numeral_2_eq_2 elementwise_def)

text \<open>
  Claim C4, amended. The collaborators keep their shape contract, the two streams have
  the same shape with at least one epoch and one channel, and the metric is supported.
  Then for an integer range [f0, f1) with \<open>f0 < f1\<close> the frequency axis of the analytic
  signal has length \<open>f1 - f0\<close>; for a dict of at least one band (each a list of at least
  two numbers) it has the length of the dict, and the frequency index \<open>b\<close> holds the
  analytic signal of the \<open>b\<close>-th band in iteration order; and in both cases the result
  has shape (n_freq, n_epochs, n_channels, n_channels) when \<^verbatim>\<open>epoch_wise\<close> is true and
  \<^verbatim>\<open>time_resolved\<close> is false, and (n_freq, n_channels, n_channels) otherwise.
\<close>

theorem shape_law:
  assumes contract: "shape_contract ext" and same: "dims3 (fst data) = dims3 (snd data)"
    and epochs: "0 < len0 (fst data)" and channels: "0 < len1 (fst data)"
    and name: "name \<in> set supported_metrics"
  shows
    "(f0 < f1 \<longrightarrow>
       (\<exists>cs r. compute_single_freq ext data [f0, f1] = Inr cs
          \<and> shape3 cs = nat (f1 - f0)
          \<and> simple_corr ext data (PyList [f0, f1]) (Interned name) epoch_wise time_resolved
              = Inr r
          \<and> shape r = (if epoch_wise \<and> \<not> time_resolved
                        then [nat (f1 - f0), len0 (fst data), len1 (fst data), len1 (fst data)]
                        else [nat (f1 - f0), len1 (fst data), len1 (fst data)])))
     \<and> (freq_bands \<noteq> [] \<longrightarrow> list_all (\<lambda>band. 2 \<le> length (snd band)) freq_bands \<longrightarrow>
       (\<exists>cs r. compute_freq_bands ext data freq_bands = Inr cs
          \<and> shape3 cs = length freq_bands
          \<and> (\<forall>b<length freq_bands.
                \<exists>hilb. band_signal ext data (len2 (fst data)) (snd (freq_bands ! b)) = Inr hilb
                     \<and> (\<forall>n epoch ch t. at5 cs n epoch ch b t = at4 hilb n epoch ch t))
          \<and> simple_corr ext data (PyDict freq_bands) (Interned name) epoch_wise time_resolved
              = Inr r
          \<and> shape r = (if epoch_wise \<and> \<not> time_resolved
                        then [length freq_bands, len0 (fst data), len1 (fst data),
                              len1 (fst data)]
                        else [length freq_bands, len1 (fst data), len1 (fst data)])))"
proof (intro conjI impI)
  assume lt: "f0 < f1"
  from compute_single_freq_ok [OF contract same, of f0 f1 "[]"]
  obtain cs where cs: "compute_single_freq ext data [f0, f1] = Inr cs"
    "shape1 cs = len0 (fst data)" "shape2 cs = len1 (fst data)"
    "shape3 cs = nat (f1 - f0)" "shape4 cs = len2 (fst data)"
    by blast
  from lt cs epochs channels have pos: "0 < shape1 cs" "0 < shape2 cs" "0 < shape3 cs"
    by simp_all
  from compute_sync_shape [OF name pos, of ext epoch_wise time_resolved]
  obtain r where r: "compute_sync ext cs (Interned name) epoch_wise time_resolved = Inr r"
    "shape r = (if epoch_wise \<and> \<not> time_resolved
                then [shape3 cs, shape1 cs, shape2 cs, shape2 cs]
                else [shape3 cs, shape2 cs, shape2 cs])"
    by blast
  have "simple_corr ext data (PyList [f0, f1]) (Interned name) epoch_wise time_resolved = Inr r"
    using same cs(1) r(1) by (simp add: simple_corr_def dims3_def)
  with cs r(2)
  show "\<exists>cs r. compute_single_freq ext data [f0, f1] = Inr cs
          \<and> shape3 cs = nat (f1 - f0)
          \<and> simple_corr ext data (PyList [f0, f1]) (Interned name) epoch_wise time_resolved
              = Inr r
          \<and> shape r = (if epoch_wise \<and> \<not> time_resolved
                        then [nat (f1 - f0), len0 (fst data), len1 (fst data), len1 (fst data)]
                        else [nat (f1 - f0), len1 (fst data), len1 (fst data)])"
    by simp
next
  assume nonempty: "freq_bands \<noteq> []"
    and two: "list_all (\<lambda>band. 2 \<le> length (snd band)) freq_bands"
  from compute_freq_bands_ok [OF contract same nonempty two]
  obtain cs where cs: "compute_freq_bands ext data freq_bands = Inr cs"
    "shape1 cs = len0 (fst data)" "shape2 cs = len1 (fst data)"
    "shape3 cs = length freq_bands" "shape4 cs = len2 (fst data)"
    "\<forall>b<length freq_bands.
        \<exists>hilb. band_signal ext data (len2 (fst data)) (snd (freq_bands ! b)) = Inr hilb
             \<and> (\<forall>n epoch ch t. at5 cs n epoch ch b t = at4 hilb n epoch ch t)"
    by blast
  from nonempty cs epochs channels have pos: "0 < shape1 cs" "0 < shape2 cs" "0 < shape3 cs"
    by simp_all
  from compute_sync_shape [OF name pos, of ext epoch_wise time_resolved]
  obtain r where r: "compute_sync ext cs (Interned name) epoch_wise time_resolved = Inr r"
    "shape r = (if epoch_wise \<and> \<not> time_resolved
                then [shape3 cs, shape1 cs, shape2 cs, shape2 cs]
                else [shape3 cs, shape2 cs, shape2 cs])"
    by blast
  have "simple_corr ext data (PyDict freq_bands) (Interned name) epoch_wise time_resolved
          = Inr r"
    using same cs(1) r(1) by (simp add: simple_corr_def dims3_def)
  with cs r(2)
  show "\<exists>cs r. compute_freq_bands ext data freq_bands = Inr cs
          \<and> shape3 cs = length freq_bands
          \<and> (\<forall>b<length freq_bands.
                \<exists>hilb. band_signal ext data (len2 (fst data)) (snd (freq_bands ! b)) = Inr hilb
                     \<and> (\<forall>n epoch ch t. at5 cs n epoch ch b t = at4 hilb n epoch ch t))
          \<and> simple_corr ext data (PyDict freq_bands) (Interned name) epoch_wise time_resolved
              = Inr r
          \<and> shape r = (if epoch_wise \<and> \<not> time_resolved
                        then [length freq_bands, len0 (fst data), len1 (fst data),
                              len1 (fst data)]
                        else [length freq_bands, len1 (fst data), len1 (fst data)])"
    by (intro exI [of _ cs] exI [of _ r]) simp
qed

text \<open>
  Witness of C4, amended: the dyad of one epoch, two channels and three samples with the
  range [8, 10) and with the bands alpha and beta, the metric \<^verbatim>\<open>envelope\<close>, per epoch and
  not averaged.
\<close>

theorem shape_law_witness:
  "shape_contract plain_collaborators
   \<and> dims3 (fst dyad) = dims3 (snd dyad)
   \<and> 0 < len0 (fst dyad) \<and> 0 < len1 (fst dyad)
   \<and> ''envelope'' \<in> set supported_metrics
   \<and> (8::int) < 10
   \<and> (\<exists>cs r. compute_single_freq plain_collaborators dyad [8, 10] = Inr cs
         \<and> shape3 cs = 2
         \<and> simple_corr plain_collaborators dyad (PyList [8, 10]) (Interned ''envelope'')
             True False = Inr r
         \<and> shape r = [2, 1, 2, 2])
   \<and> alpha_beta \<noteq> []
   \<and> list_all (\<lambda>band. 2 \<le> length (snd band)) alpha_beta
   \<and> (\<exists>cs r. compute_freq_bands plain_collaborators dyad alpha_beta = Inr cs
         \<and> shape3 cs = 2
         \<and> simple_corr plain_collaborators dyad (PyDict alpha_beta) (Interned ''envelope'')
             True False = Inr r
         \<and> shape r = [2, 1, 2, 2])"
proof -
  have same: "dims3 (fst dyad) = dims3 (snd dyad)"
    by (simp add: dyad_def)
  have sizes: "0 < len0 (fst dyad)" "0 < len1 (fst dyad)"
    by (simp_all add: dyad_def recording_def)
  have name: "''envelope'' \<in> set supported_metrics"
    by (simp add: supported_metrics_def)
  have bands: "alpha_beta \<noteq> []" "list_all (\<lambda>band. 2 \<le> length (snd band)) alpha_beta"
    by (simp_all add: alpha_beta_def)
  have lens: "len0 (fst dyad) = 1" "len1 (fst dyad) = 2" "length alpha_beta = 2"
    by (simp_all add: dyad_def recording_def alpha_beta_def)
  note inst = shape_law [OF plain_contract same sizes name, of 8 10 True False alpha_beta]
  from inst [THEN conjunct1]
  have range: "\<exists>cs r. compute_single_freq plain_collaborators dyad [8, 10] = Inr cs
         \<and> shape3 cs = 2
         \<and> simple_corr plain_collaborators dyad (PyList [8, 10]) (Interned ''envelope'')
             True False = Inr r
         \<and> shape r = [2, 1, 2, 2]"
    by (simp add: lens)
  from inst [THEN conjunct2] bands
  have dict: "\<exists>cs r. compute_freq_bands plain_collaborators dyad alpha_beta = Inr cs
         \<and> shape3 cs = 2
         \<and> simple_corr plain_collaborators dyad (PyDict alpha_beta) (Interned ''envelope'')
             True False = Inr r
         \<and> shape r = [2, 1, 2, 2]"
    by (simp add: lens) blast
  from plain_contract same sizes name range bands dict show ?thesis
    by simp
qed

end
